theory Spec2Isabelle
  imports Complex_Main
begin

unbundle bit_operations_syntax

section \<open>The ADS1298 driver of Ads1298Api.py\<close>

text \<open>
  Python integers are \<open>int\<close>; a frame is a list of integers, as \<open>spidev\<close> returns it.
  Every \<open>raise\<close> and every failing \<open>assert\<close> is a value of \<open>error\<close>. Sleeping and
  printing are left out.
\<close>

datatype error =
    ValueError | StructError | AssertionError | AttributeError | NameError
  | TypeError | IndexError | OSError | RuntimeError

subsection \<open>Module constants\<close>

definition NUM_CHANNELS :: nat where "NUM_CHANNELS = 8"

definition REG_ID :: int where "REG_ID = 0x00"
definition REG_CONFIG1 :: int where "REG_CONFIG1 = 0x01"
definition REG_CONFIG2 :: int where "REG_CONFIG2 = 0x02"
definition REG_CONFIG3 :: int where "REG_CONFIG3 = 0x03"
definition REG_CONFIG4 :: int where "REG_CONFIG4 = 0x17"
definition REG_LOFF :: int where "REG_LOFF = 0x04"
definition REG_CHnSET_BASE :: int where "REG_CHnSET_BASE = 0x05"
definition REG_BIAS_SENSP :: int where "REG_BIAS_SENSP = 0x0D"
definition REG_BIAS_SENSN :: int where "REG_BIAS_SENSN = 0x0E"
definition REG_LOFF_SENSP :: int where "REG_LOFF_SENSP = 0x0F"
definition REG_LOFF_SENSN :: int where "REG_LOFF_SENSN = 0x10"
definition REG_LOFF_FLIP :: int where "REG_LOFF_FLIP = 0x11"
definition REG_WCT1 :: int where "REG_WCT1 = 0x18"
definition REG_WCT2 :: int where "REG_WCT2 = 0x19"

definition WAKEUP :: int where "WAKEUP = 0x02"
definition STANDBY :: int where "STANDBY = 0x04"
definition RESET :: int where "RESET = 0x06"
definition START :: int where "START = 0x08"
definition STOP :: int where "STOP = 0x0A"
definition RDATAC :: int where "RDATAC = 0x10"
definition SDATAC :: int where "SDATAC = 0x11"
definition RDATA :: int where "RDATA = 0x12"

definition START_PIN :: int where "START_PIN = 22"
definition nRESET_PIN :: int where "nRESET_PIN = 24"
definition nPWRDN_PIN :: int where "nPWRDN_PIN = 25"
definition DRDY_PIN :: int where "DRDY_PIN = 23"
definition CE1 :: int where "CE1 = 7"

subsection \<open>Codec: \<open>convert_24b_data\<close>, \<open>convert_24b_to_float\<close>, \<open>default_callback\<close>\<close>

text \<open>
  The two \<open>struct\<close> formats the module uses: \<open>">i"\<close> (big-endian signed 32 bit) and
  \<open>">I"\<close> (big-endian unsigned 32 bit).
\<close>

datatype fmt = BE_int | BE_uint

text \<open>\<open>struct.pack("3B", *unpacked)\<close> raises \<open>struct.error\<close> on a value outside 0..255.\<close>

definition pack_3B :: "int list \<Rightarrow> error + int list" where
  "pack_3B unpacked =
     (if list_all (\<lambda>b. 0 \<le> b \<and> b \<le> 255) unpacked then Inr unpacked else Inl StructError)"

text \<open>The big-endian value of a byte string, most significant byte first.\<close>

definition be_value :: "int list \<Rightarrow> int" where
  "be_value bs = foldl (\<lambda>acc b. acc * 256 + b) 0 bs"

text \<open>\<open>struct.unpack(fmt, four_bytes)[0]\<close>.\<close>

fun unpack :: "fmt \<Rightarrow> int list \<Rightarrow> int" where
  "unpack BE_uint bs = be_value bs"
| "unpack BE_int bs = (let u = be_value bs in if u \<ge> 2 ^ 31 then u - 2 ^ 32 else u)"

definition convert_24b_data :: "int list \<Rightarrow> fmt \<Rightarrow> error + int" where
  "convert_24b_data unpacked f =
     (if length unpacked \<noteq> 3 then Inl ValueError
      else case pack_3B unpacked of
        Inl e \<Rightarrow> Inl e
      | Inr literal_read \<Rightarrow>
          (let prefix = (if hd unpacked > 127 then [0xff] else [0x00])
           in Inr (unpack f (prefix @ literal_read))))"

text \<open>
  \<open>convert_24b_data(unpacked) * SCALE_TO_UVOLT\<close> is a floating-point product. Its
  rounding is not modelled: the product is the parameter \<open>scale\<close>, and
  \<open>exact_uvolt\<close> is the product without rounding, for running the model.
\<close>

definition SCALE_TO_UVOLT :: rat where
  "SCALE_TO_UVOLT = (5 / 12) / (2 ^ 24)"

definition exact_uvolt :: "int \<Rightarrow> rat" where
  "exact_uvolt v = of_int v * SCALE_TO_UVOLT"

definition convert_24b_to_float :: "(int \<Rightarrow> 'f) \<Rightarrow> int list \<Rightarrow> error + 'f" where
  "convert_24b_to_float scale unpacked =
     (case convert_24b_data unpacked BE_int of Inl e \<Rightarrow> Inl e | Inr v \<Rightarrow> Inr (scale v))"

text \<open>The Python slice \<open>xs[a:b]\<close> for \<open>0 \<le> a \<le> b\<close>: it never raises, it is cut short.\<close>

definition py_slice :: "'a list \<Rightarrow> nat \<Rightarrow> nat \<Rightarrow> 'a list" where
  "py_slice xs a b = take (b - a) (drop a xs)"

text \<open>
  The loop \<open>for i in range(0, NUM_CHANNELS): samples[i] = convert_24b_to_float(...)\<close>,
  over the list of indices; the first conversion that raises ends it.
\<close>

fun convert_channels :: "(int \<Rightarrow> 'f) \<Rightarrow> int list \<Rightarrow> nat list \<Rightarrow> error + 'f list" where
  "convert_channels scale raw [] = Inr []"
| "convert_channels scale raw (i # is) =
     (case convert_24b_to_float scale (py_slice raw (i * 3 + 3) ((i + 1) * 3 + 3)) of
        Inl e \<Rightarrow> Inl e
      | Inr v \<Rightarrow>
          (case convert_channels scale raw is of
             Inl e \<Rightarrow> Inl e
           | Inr vs \<Rightarrow> Inr (v # vs)))"

text \<open>What \<open>default_callback\<close> prints for a frame.\<close>

record 'f printed =
  loff_stat_p :: int
  loff_stat_n :: int
  samples :: "'f list"

text \<open>
  \<open>default_callback(raw)\<close>. Its first statement is \<open>GPIO.output(CE1, GPIO.HIGH)\<close>; the
  name \<open>GPIO\<close> is bound only when the imports succeed, that is when \<open>STUB_API\<close>
  is false. The first argument is \<open>STUB_API\<close>.
\<close>

definition default_callback :: "bool \<Rightarrow> (int \<Rightarrow> 'f) \<Rightarrow> int list \<Rightarrow> error + 'f printed" where
  "default_callback stub scale raw =
     (if stub then Inl NameError
      else case convert_24b_data (py_slice raw 0 3) BE_uint of
        Inl e \<Rightarrow> Inl e
      | Inr u \<Rightarrow>
          (let status_word = u AND 0xffffff in
           if drop_bit 20 status_word \<noteq> 12 then Inl AssertionError
           else
             (let p = drop_bit 12 status_word AND 0xff;
                  n = drop_bit 4 status_word AND 0xff
              in case convert_channels scale raw [0 ..< NUM_CHANNELS] of
                   Inl e \<Rightarrow> Inl e
                 | Inr vs \<Rightarrow> Inr \<lparr>loff_stat_p = p, loff_stat_n = n, samples = vs\<rparr>)))"

subsection \<open>The driver object and its surroundings\<close>

text \<open>
  What the driver does not decide is a parameter:
  \<^item> \<open>STUB_API\<close>, true when \<open>spidev\<close> or \<open>RPi.GPIO\<close> could not be imported;
  \<^item> \<open>xfer\<close>, the bus: given the transactions handed to \<open>spi.xfer\<close> so far and the
    bytes clocked out now, it raises or returns the bytes clocked in;
  \<^item> \<open>call\<close>, a subscriber invoked with a frame: it returns (\<open>None\<close>) or raises.
    A subscriber is taken not to call back into the driver;
  \<^item> \<open>library\<close>, the other calls into \<open>spidev\<close>, \<open>RPi.GPIO\<close> and \<open>threading\<close>:
    given the calls that have returned so far and the call made now, it raises or
    returns.
\<close>

datatype library_call =
    Spi_open | Spi_max_speed_hz | Spi_mode | Spi_close
  | Gpio_setmode | Gpio_setup_out int bool | Gpio_setup_in int
  | Gpio_add_event_detect int | Gpio_cleanup
  | Thread_start | Thread_join

record 'h env =
  STUB_API :: bool
  xfer :: "int list list \<Rightarrow> int list \<Rightarrow> error + int list"
  call :: "'h \<Rightarrow> int list \<Rightarrow> error option"
  library :: "library_call list \<Rightarrow> library_call \<Rightarrow> error option"

text \<open>
  The attributes of \<open>Ads1298Api\<close>, one object (the list of subscribers and the
  register mirror are class attributes changed in place: a second object would share
  them). \<open>stubThread\<close> and \<open>spi_lock\<close> say whether the attribute holds a thread
  and a lock (each is \<open>None\<close> before \<open>open_device\<close>). Four fields record what leaves
  the driver, each in order: \<open>library_log\<close> the library calls that have returned,
  \<open>spi_log\<close> the transactions handed to \<open>spi.xfer\<close>, \<open>gpio_log\<close> the levels
  driven on output pins, by \<open>GPIO.setup(..., initial=...)\<close> and by \<open>GPIO.output\<close>,
  \<open>delivered\<close> the subscriber invocations.
\<close>

record 'h ads =
  library_log :: "library_call list"
  stubThread :: bool
  APIAlive :: bool
  spi_lock :: bool
  clientUpdateHandles :: "'h list"
  nb_channels :: int
  sampling_rate :: int
  bias_enabled :: bool
  stream_active :: bool
  config_registers :: "int \<rightharpoonup> int"
  spi_log :: "int list list"
  gpio_log :: "(int \<times> bool) list"
  delivered :: "('h \<times> int list) list"

text \<open>The class attributes as the class body sets them.\<close>

definition initial :: "'h ads" where
  "initial =
     \<lparr>library_log = [], stubThread = False, APIAlive = True,
      spi_lock = False, clientUpdateHandles = [], nb_channels = 8, sampling_rate = 500,
      bias_enabled = False, stream_active = False, config_registers = Map.empty,
      spi_log = [], gpio_log = [], delivered = []\<rparr>"

text \<open>
  A statement is a function from the object to an optional exception and the object as
  the statement left it: what was assigned before a \<open>raise\<close> stays assigned.
\<close>

fun run_all :: "('s \<Rightarrow> error option \<times> 's) list \<Rightarrow> 's \<Rightarrow> error option \<times> 's" where
  "run_all [] s = (None, s)"
| "run_all (c # cs) s =
     (case c s of (Some e, s') \<Rightarrow> (Some e, s') | (None, s') \<Rightarrow> run_all cs s')"

definition discard :: "(error + 'a) \<times> 's \<Rightarrow> error option \<times> 's" where
  "discard r = (case r of (Inl e, s) \<Rightarrow> (Some e, s) | (Inr _, s) \<Rightarrow> (None, s))"

subsection \<open>SPI interface\<close>

text \<open>
  \<open>with self.spi_lock: self.spi.xfer(tx, self.spi_speed, self.spi_pause)\<close>. Entering
  \<open>with None\<close> raises before the transfer (a \<open>TypeError\<close> since Python 3.11).
\<close>

definition locked_xfer :: "'h env \<Rightarrow> int list \<Rightarrow> 'h ads \<Rightarrow> (error + int list) \<times> 'h ads" where
  "locked_xfer env tx s =
     (if \<not> spi_lock s then (Inl TypeError, s)
      else (xfer env (spi_log s) tx, s\<lparr>spi_log := spi_log s @ [tx]\<rparr>))"

definition spi_transmit_byte :: "'h env \<Rightarrow> int \<Rightarrow> 'h ads \<Rightarrow> error option \<times> 'h ads" where
  "spi_transmit_byte env byte s =
     (if STUB_API env then (None, s) else discard (locked_xfer env [byte] s))"

definition spi_write_single_reg ::
  "'h env \<Rightarrow> int \<Rightarrow> int \<Rightarrow> 'h ads \<Rightarrow> error option \<times> 'h ads" where
  "spi_write_single_reg env reg byte s =
     (let s1 = s\<lparr>config_registers := (config_registers s)(reg \<mapsto> byte)\<rparr>
      in if STUB_API env then (None, s1)
         else discard (locked_xfer env [reg OR 0x40, 0x00, byte] s1))"

text \<open>
  The loop \<open>for index, addr in enumerate(range(start_reg, start_reg + len(byte_array)))\<close>
  of \<open>spi_write_multiple_reg\<close>.
\<close>

fun store_range :: "int \<Rightarrow> int list \<Rightarrow> (int \<rightharpoonup> int) \<Rightarrow> (int \<rightharpoonup> int)" where
  "store_range addr [] m = m"
| "store_range addr (v # vs) m = store_range (addr + 1) vs (m(addr \<mapsto> v))"

definition spi_write_multiple_reg ::
  "'h env \<Rightarrow> int \<Rightarrow> int list \<Rightarrow> 'h ads \<Rightarrow> error option \<times> 'h ads" where
  "spi_write_multiple_reg env start_reg byte_array s =
     (let s1 = s\<lparr>config_registers := store_range start_reg byte_array (config_registers s)\<rparr>
      in if STUB_API env then (None, s1)
         else discard
           (locked_xfer env ([start_reg OR 0x40, int (length byte_array) - 1] @ byte_array) s1))"

definition spi_read_multiple_bytes ::
  "'h env \<Rightarrow> nat \<Rightarrow> 'h ads \<Rightarrow> (error + int list) \<times> 'h ads" where
  "spi_read_multiple_bytes env nb_bytes s =
     (if STUB_API env then (Inr [], s) else locked_xfer env (replicate nb_bytes 0x00) s)"

definition spi_read_reg :: "'h env \<Rightarrow> int \<Rightarrow> 'h ads \<Rightarrow> (error + int) \<times> 'h ads" where
  "spi_read_reg env reg s =
     (if STUB_API env then (Inr (if reg = REG_ID then 0x92 else 0x00), s)
      else case locked_xfer env [0x20 OR reg, 0x00, 0x00] s of
        (Inl e, s') \<Rightarrow> (Inl e, s')
      | (Inr r, s') \<Rightarrow> (if 2 < length r then Inr (r ! 2) else Inl IndexError, s'))"

subsection \<open>GPIO interface\<close>

definition set_pin :: "'h env \<Rightarrow> int \<Rightarrow> bool \<Rightarrow> 'h ads \<Rightarrow> error option \<times> 'h ads" where
  "set_pin env pin state s =
     (if STUB_API env then (None, s) else (None, s\<lparr>gpio_log := gpio_log s @ [(pin, state)]\<rparr>))"

text \<open>
  The names the class body of \<open>Ads1298Api\<close> binds. \<open>self.name\<close> for any other name
  raises \<open>AttributeError\<close>; \<open>START_PIN\<close>, \<open>nRESET_PIN\<close> and \<open>nPWRDN_PIN\<close> are bound
  in the module only.
\<close>

definition class_names :: "string list" where
  "class_names =
     [''spi'', ''stubThread'', ''APIAlive'', ''spi_lock'', ''clientUpdateHandles'',
      ''nb_channels'', ''sampling_rate'', ''bias_enabled'', ''stream_active'',
      ''spi_speed'', ''spi_pause'', ''config_registers'',
      ''__init__'', ''__del__'', ''open_device'', ''close_device'', ''start_exg_stream'',
      ''start_test_stream'', ''stop_stream'', ''register_client'', ''configure'',
      ''ads1298_startup_sequence'', ''setup_exg_mode'', ''configure_dc_leads_off'',
      ''setup_test_mode'', ''reset_ongoing_state'', ''set_sampling_rate'',
      ''setup_bias_drive'', ''stub_task'', ''check_device_id'', ''drdy_callback'',
      ''set_start'', ''toggle_reset'', ''set_nreset'', ''set_npwrdn'',
      ''configure_all_channels'', ''set_pin'', ''spi_transmit_byte'',
      ''spi_write_single_reg'', ''spi_write_multiple_reg'', ''spi_read_multiple_bytes'',
      ''spi_read_reg'']"

text \<open>
  \<open>self.set_pin(self.START_PIN, state)\<close>: the argument \<open>self.START_PIN\<close> is evaluated
  before \<open>set_pin\<close> is entered.
\<close>

definition set_start :: "'h env \<Rightarrow> bool \<Rightarrow> 'h ads \<Rightarrow> error option \<times> 'h ads" where
  "set_start env state s =
     (if ''START_PIN'' \<in> set class_names then set_pin env START_PIN state s
      else (Some AttributeError, s))"

definition set_nreset :: "'h env \<Rightarrow> bool \<Rightarrow> 'h ads \<Rightarrow> error option \<times> 'h ads" where
  "set_nreset env state s =
     (if ''nRESET_PIN'' \<in> set class_names then set_pin env nRESET_PIN state s
      else (Some AttributeError, s))"

definition set_npwrdn :: "'h env \<Rightarrow> bool \<Rightarrow> 'h ads \<Rightarrow> error option \<times> 'h ads" where
  "set_npwrdn env state s =
     (if ''nPWRDN_PIN'' \<in> set class_names then set_pin env nPWRDN_PIN state s
      else (Some AttributeError, s))"

definition toggle_reset :: "'h env \<Rightarrow> 'h ads \<Rightarrow> error option \<times> 'h ads" where
  "toggle_reset env = run_all [set_nreset env False, set_nreset env True]"

subsection \<open>ADS1298 control\<close>

definition configure_all_channels :: "'h env \<Rightarrow> int \<Rightarrow> 'h ads \<Rightarrow> error option \<times> 'h ads" where
  "configure_all_channels env config =
     spi_write_multiple_reg env REG_CHnSET_BASE (replicate NUM_CHANNELS config)"

text \<open>
  \<open>set_sampling_rate\<close>: the test for 4000 is an \<open>if\<close> of its own; the chain
  \<open>if 2000 / elif 1000 / elif 500 / else raise\<close> follows it.
\<close>

definition set_sampling_rate :: "'h env \<Rightarrow> 'h ads \<Rightarrow> error option \<times> 'h ads" where
  "set_sampling_rate env s =
     (let temp0 = 0x80;
          temp1 = (if sampling_rate s = 4000 then temp0 OR 3 else temp0)
      in case (if sampling_rate s = 2000 then Inr (temp1 OR 4)
               else if sampling_rate s = 1000 then Inr (temp1 OR 5)
               else if sampling_rate s = 500 then Inr (temp1 OR 6)
               else Inl ValueError) of
           Inl e \<Rightarrow> (Some e, s)
         | Inr temp_reg_value \<Rightarrow> spi_write_single_reg env REG_CONFIG1 temp_reg_value s)"

definition reset_ongoing_state :: "'h env \<Rightarrow> 'h ads \<Rightarrow> error option \<times> 'h ads" where
  "reset_ongoing_state env =
     run_all
       [spi_transmit_byte env SDATAC,
        spi_write_single_reg env REG_CONFIG3 0x48,
        set_sampling_rate env,
        spi_write_single_reg env REG_CONFIG2 0xC0,
        spi_write_single_reg env REG_BIAS_SENSP 0x00,
        spi_write_single_reg env REG_BIAS_SENSN 0x00,
        configure_all_channels env 0x01]"

definition configure_dc_leads_off :: "'h env \<Rightarrow> bool \<Rightarrow> 'h ads \<Rightarrow> error option \<times> 'h ads" where
  "configure_dc_leads_off env enable =
     (if enable then
        run_all
          [spi_write_single_reg env REG_LOFF 0x93,
           spi_write_single_reg env REG_LOFF_SENSP 0xFF,
           spi_write_single_reg env REG_LOFF_SENSN 0xFF,
           spi_write_single_reg env REG_LOFF_FLIP 0xFF,
           spi_write_single_reg env REG_CONFIG4 0x02]
      else
        run_all
          [spi_write_single_reg env REG_LOFF 0x00,
           spi_write_single_reg env REG_LOFF_SENSP 0x00,
           spi_write_single_reg env REG_LOFF_SENSN 0x00,
           spi_write_single_reg env REG_LOFF_FLIP 0x00,
           spi_write_single_reg env REG_CONFIG4 0x00])"

definition setup_bias_drive :: "'h env \<Rightarrow> 'h ads \<Rightarrow> error option \<times> 'h ads" where
  "setup_bias_drive env s =
     (if \<not> bias_enabled s then (None, s)
      else
        (let reg_value = 2 ^ NUM_CHANNELS - 1
         in run_all
              [spi_write_single_reg env REG_BIAS_SENSP reg_value,
               spi_write_single_reg env REG_BIAS_SENSN reg_value,
               spi_write_single_reg env REG_CONFIG3 0xEC] s))"

definition setup_exg_mode :: "'h env \<Rightarrow> 'h ads \<Rightarrow> error option \<times> 'h ads" where
  "setup_exg_mode env =
     run_all
       [spi_write_single_reg env REG_CONFIG2 0x00,
        configure_all_channels env 0x60,
        spi_write_single_reg env REG_BIAS_SENSP 0xFF,
        spi_write_single_reg env REG_BIAS_SENSN 0x01,
        spi_write_single_reg env REG_WCT1 0xA,
        configure_dc_leads_off env True,
        setup_bias_drive env]"

definition setup_test_mode :: "'h env \<Rightarrow> 'h ads \<Rightarrow> error option \<times> 'h ads" where
  "setup_test_mode env =
     run_all
       [spi_transmit_byte env SDATAC,
        spi_write_single_reg env REG_CONFIG2 0x11,
        spi_write_single_reg env REG_CONFIG3 0xC0,
        configure_dc_leads_off env False,
        configure_all_channels env 0x05]"

definition check_device_id :: "'h env \<Rightarrow> 'h ads \<Rightarrow> error option \<times> 'h ads" where
  "check_device_id env s =
     (case spi_read_reg env REG_ID s of
        (Inl e, s') \<Rightarrow> (Some e, s')
      | (Inr res, s') \<Rightarrow>
          (if res AND 0x18 \<noteq> 0x10 then (Some AssertionError, s')
           else if res AND 0xE0 \<noteq> 0x80 then (Some AssertionError, s')
           else if res AND 0x03 \<noteq> 0x02 then (Some AssertionError, s')
           else (None, s')))"

definition ads1298_startup_sequence :: "'h env \<Rightarrow> 'h ads \<Rightarrow> error option \<times> 'h ads" where
  "ads1298_startup_sequence env =
     run_all
       [set_nreset env True,
        set_npwrdn env True,
        toggle_reset env,
        reset_ongoing_state env,
        check_device_id env]"

subsection \<open>Public operations\<close>

text \<open>The levels that \<open>GPIO.setup(pin, GPIO.OUT, initial=level)\<close> calls drive.\<close>

fun setup_levels :: "library_call list \<Rightarrow> (int \<times> bool) list" where
  "setup_levels [] = []"
| "setup_levels (Gpio_setup_out pin level # cs) = (pin, level) # setup_levels cs"
| "setup_levels (c # cs) = setup_levels cs"

text \<open>A library call: when it raises the object is as before, when it returns it is logged.\<close>

definition library_step :: "'h env \<Rightarrow> library_call \<Rightarrow> 'h ads \<Rightarrow> error option \<times> 'h ads" where
  "library_step env c s =
     (case library env (library_log s) c of
        Some e \<Rightarrow> (Some e, s)
      | None \<Rightarrow>
          (None, s\<lparr>library_log := library_log s @ [c],
                   gpio_log := gpio_log s @ setup_levels [c]\<rparr>))"

text \<open>
  The library calls of \<open>open_device\<close> on the hardware, lines 225 to 240: the bus is
  opened and set, the four control pins are made outputs at their first levels, the
  ready-signal pin an input with \<open>drdy_callback\<close> on its falling edge.
\<close>

definition hardware_setup :: "library_call list" where
  "hardware_setup =
     [Spi_open, Spi_max_speed_hz, Spi_mode, Gpio_setmode,
      Gpio_setup_out START_PIN False, Gpio_setup_out nRESET_PIN False,
      Gpio_setup_out nPWRDN_PIN False, Gpio_setup_out CE1 True,
      Gpio_setup_in DRDY_PIN, Gpio_add_event_detect DRDY_PIN]"

definition set_stubThread :: "'h ads \<Rightarrow> error option \<times> 'h ads" where
  "set_stubThread s = (None, s\<lparr>stubThread := True\<rparr>)"

definition set_spi_lock :: "'h ads \<Rightarrow> error option \<times> 'h ads" where
  "set_spi_lock s = (None, s\<lparr>spi_lock := True\<rparr>)"

text \<open>
  \<open>open_device\<close>: the library calls of the mode, then the lock, then the start-up
  sequence. The loop of the stub thread is not modelled.
\<close>

definition open_device :: "'h env \<Rightarrow> 'h ads \<Rightarrow> error option \<times> 'h ads" where
  "open_device env =
     run_all
       ((if \<not> STUB_API env then map (library_step env) hardware_setup
         else [set_stubThread, library_step env Thread_start])
        @ [set_spi_lock, ads1298_startup_sequence env])"

definition set_APIAlive :: "bool \<Rightarrow> 'h ads \<Rightarrow> error option \<times> 'h ads" where
  "set_APIAlive b s = (None, s\<lparr>APIAlive := b\<rparr>)"

text \<open>\<open>close_device\<close>; \<open>self.stubThread.join()\<close> on \<open>None\<close> is an \<open>AttributeError\<close>.\<close>

definition join_stubThread :: "'h env \<Rightarrow> 'h ads \<Rightarrow> error option \<times> 'h ads" where
  "join_stubThread env s =
     (if stubThread s then library_step env Thread_join s else (Some AttributeError, s))"

definition close_device :: "'h env \<Rightarrow> 'h ads \<Rightarrow> error option \<times> 'h ads" where
  "close_device env =
     run_all
       (set_APIAlive False
        # (if STUB_API env then [join_stubThread env]
           else [library_step env Spi_close, library_step env Gpio_cleanup]))"

definition set_stream_active :: "bool \<Rightarrow> 'h ads \<Rightarrow> error option \<times> 'h ads" where
  "set_stream_active b s = (None, s\<lparr>stream_active := b\<rparr>)"

definition start_exg_stream :: "'h env \<Rightarrow> 'h ads \<Rightarrow> error option \<times> 'h ads" where
  "start_exg_stream env =
     run_all
       [reset_ongoing_state env,
        setup_exg_mode env,
        set_stream_active True,
        set_start env True,
        spi_transmit_byte env RDATAC]"

definition start_test_stream :: "'h env \<Rightarrow> 'h ads \<Rightarrow> error option \<times> 'h ads" where
  "start_test_stream env =
     run_all
       [reset_ongoing_state env,
        setup_test_mode env,
        set_stream_active True,
        set_start env True,
        spi_transmit_byte env RDATAC]"

definition stop_stream :: "'h env \<Rightarrow> 'h ads \<Rightarrow> error option \<times> 'h ads" where
  "stop_stream env =
     run_all
       [spi_transmit_byte env SDATAC,
        set_stream_active False,
        set_APIAlive False]"

definition register_client :: "'h \<Rightarrow> 'h ads \<Rightarrow> 'h ads" where
  "register_client client_handle s =
     s\<lparr>clientUpdateHandles := clientUpdateHandles s @ [client_handle]\<rparr>"

text \<open>\<open>configure(sampling_rate=None, bias_enabled=None)\<close>: an argument left out is \<open>None\<close>.\<close>

definition configure :: "int option \<Rightarrow> bool option \<Rightarrow> 'h ads \<Rightarrow> error option \<times> 'h ads" where
  "configure new_rate new_bias s =
     (if stream_active s then (Some AssertionError, s)
      else
        (let s1 = (case new_rate of None \<Rightarrow> s | Some r \<Rightarrow> s\<lparr>sampling_rate := r\<rparr>);
             s2 = (case new_bias of None \<Rightarrow> s1 | Some b \<Rightarrow> s1\<lparr>bias_enabled := b\<rparr>)
         in (None, s2)))"

subsection \<open>The ready-signal handler\<close>

text \<open>
  The loop \<open>for handle in self.clientUpdateHandles: handle(raw)\<close>: a handle that raises
  ends the loop, and the exception leaves \<open>drdy_callback\<close>.
\<close>

fun broadcast :: "'h env \<Rightarrow> 'h list \<Rightarrow> int list \<Rightarrow> 'h ads \<Rightarrow> error option \<times> 'h ads" where
  "broadcast env [] raw s = (None, s)"
| "broadcast env (h # hs) raw s =
     (let s' = s\<lparr>delivered := delivered s @ [(h, raw)]\<rparr>
      in case call env h raw of
           Some e \<Rightarrow> (Some e, s')
         | None \<Rightarrow> broadcast env hs raw s')"

text \<open>\<open>drdy_callback(self, state)\<close>; the pin argument is not used.\<close>

definition drdy_callback :: "'h env \<Rightarrow> 'h ads \<Rightarrow> error option \<times> 'h ads" where
  "drdy_callback env s =
     (if \<not> stream_active s then (None, s)
      else case spi_read_multiple_bytes env (3 + NUM_CHANNELS * 3) s of
        (Inl e, s') \<Rightarrow> (Some e, s')
      | (Inr raw, s') \<Rightarrow> broadcast env (clientUpdateHandles s') raw s')"

subsection \<open>Sequences of events, and two test benches\<close>

text \<open>
  What can happen to an object between \<open>stop_stream\<close> and the next start: a ready
  signal, a call of \<open>configure\<close>, a call of \<open>register_client\<close>. An exception one of
  them raises goes to its caller; the object stays as the call left it.
\<close>

datatype 'h event = Ready_signal | Configure "int option" "bool option" | Register 'h

fun handle_event :: "'h env \<Rightarrow> 'h event \<Rightarrow> 'h ads \<Rightarrow> 'h ads" where
  "handle_event env Ready_signal s = snd (drdy_callback env s)"
| "handle_event env (Configure new_rate new_bias) s = snd (configure new_rate new_bias s)"
| "handle_event env (Register h) s = register_client h s"

text \<open>
  What a caller and the hardware can do to an object, one after the other: the public
  operations and the events above. A ready signal is taken to reach \<open>drdy_callback\<close>
  whether or not \<open>open_device\<close> has put the handler on the pin. An exception goes to
  the caller, who may go on; the object stays as the call left it.
\<close>

datatype 'h operation =
    Open_device | Close_device | Start_exg_stream | Start_test_stream | Stop_stream
  | Event "'h event"

fun perform :: "'h env \<Rightarrow> 'h operation \<Rightarrow> 'h ads \<Rightarrow> 'h ads" where
  "perform env Open_device s = snd (open_device env s)"
| "perform env Close_device s = snd (close_device env s)"
| "perform env Start_exg_stream s = snd (start_exg_stream env s)"
| "perform env Start_test_stream s = snd (start_test_stream env s)"
| "perform env Stop_stream s = snd (stop_stream env s)"
| "perform env (Event ev) s = handle_event env ev s"

text \<open>
  Two subscribers: \<open>Printer\<close> is \<open>default_callback\<close>, \<open>Recorder\<close> one that always
  returns. On the bench the bus answers every transaction with the bytes of \<open>frame\<close>,
  cut or filled with zeros to the length clocked out, and every library call returns;
  on the broken bus every transfer raises.
\<close>

datatype client = Printer | Recorder

definition bench :: "bool \<Rightarrow> int list \<Rightarrow> client env" where
  "bench stub frame =
     \<lparr>STUB_API = stub,
      xfer = (\<lambda>log tx. Inr (take (length tx) (frame @ replicate (length tx) 0))),
      call = (\<lambda>h raw. case h of
                Printer \<Rightarrow>
                  (case default_callback stub exact_uvolt raw of
                     Inl e \<Rightarrow> Some e
                   | Inr _ \<Rightarrow> None)
              | Recorder \<Rightarrow> None),
      library = (\<lambda>log c. None)\<rparr>"

definition broken_bus :: "client env" where
  "broken_bus =
     \<lparr>STUB_API = False, xfer = (\<lambda>log tx. Inl OSError), call = (\<lambda>h raw. None),
      library = (\<lambda>log c. None)\<rparr>"

text \<open>A frame in sync, its eight channels holding 1 to 7 and -1.\<close>

definition test_frame :: "int list" where
  "test_frame = [0xC1, 0x23, 0x45, 0,0,1, 0,0,2, 0,0,3, 0,0,4, 0,0,5, 0,0,6, 0,0,7, 0xFF,0xFF,0xFF]"

text \<open>
  An object whose bus is open and locked and whose stream is active, with the
  subscribers \<open>hs\<close>.
\<close>

definition streaming :: "'h list \<Rightarrow> 'h ads" where
  "streaming hs =
     initial\<lparr>library_log := hardware_setup, spi_lock := True,
             clientUpdateHandles := hs, stream_active := True,
             gpio_log := setup_levels hardware_setup\<rparr>"

text \<open>The read-continuous commands handed to the bus so far.\<close>

definition rdatac_sent :: "'h ads \<Rightarrow> int list list" where
  "rdatac_sent s = filter (\<lambda>tx. tx = [RDATAC]) (spi_log s)"

text \<open>
  The steps before \<open>set_start\<close> have what they need to complete: stub mode, or the
  lock made and a bus on which no transfer raises; and a sampling rate for which
  \<open>set_sampling_rate\<close> reaches its register write.
\<close>

definition healthy :: "'h env \<Rightarrow> 'h ads \<Rightarrow> bool" where
  "healthy env s \<longleftrightarrow>
     (STUB_API env \<or> spi_lock s \<and> (\<forall>l tx. \<not> isl (xfer env l tx))) \<and>
     (sampling_rate s = 500 \<or> sampling_rate s = 1000 \<or> sampling_rate s = 2000)"

section \<open>Properties\<close>

subsection \<open>Arithmetic of bytes\<close>

lemma bit7_iff: "0 \<le> b \<Longrightarrow> b \<le> 255 \<Longrightarrow> bit b 7 \<longleftrightarrow> 128 \<le> (b::int)"
proof -
  assume a: "0 \<le> b" "b \<le> 255"
  have "b div 128 = 0 \<or> b div 128 = 1" using a by auto
  moreover have "b div 128 = 1 \<longleftrightarrow> 128 \<le> b" using a by auto
  ultimately show ?thesis
    by (auto simp add: bit_iff_odd_drop_bit drop_bit_eq_div)
qed

lemma and_low24: "0 \<le> w \<Longrightarrow> w < 2 ^ 24 \<Longrightarrow> (p * 2 ^ 24 + w) AND 0xffffff = (w::int)"
proof -
  assume a: "0 \<le> w" "w < 2 ^ 24"
  have "(0xffffff::int) = mask 24" by (simp add: mask_eq_exp_minus_1)
  then have "(p * 2 ^ 24 + w) AND 0xffffff = take_bit 24 (p * 2 ^ 24 + w)"
    by (simp add: take_bit_eq_mask)
  also have "\<dots> = w" using a by (simp add: take_bit_eq_mod)
  finally show ?thesis .
qed

lemma convert_24b_data_bytes:
  assumes "0 \<le> b0" "b0 \<le> 255" "0 \<le> b1" "b1 \<le> 255" "0 \<le> b2" "b2 \<le> 255"
  shows "convert_24b_data [b0, b1, b2] BE_int =
           Inr (if 128 \<le> b0 then b0 * 65536 + b1 * 256 + b2 - 2 ^ 24
                else b0 * 65536 + b1 * 256 + b2)"
    and "convert_24b_data [b0, b1, b2] BE_uint =
           Inr ((if 128 \<le> b0 then 255 else 0) * 2 ^ 24 + (b0 * 65536 + b1 * 256 + b2))"
  using assms by (auto simp add: convert_24b_data_def pack_3B_def be_value_def)

subsection \<open>Codec\<close>

text \<open>
  C3. For three bytes \<open>b0, b1, b2\<close>, \<open>convert_24b_data\<close> with the default format
  returns their 24-bit two's-complement value, the sign being bit 7 of \<open>b0\<close>: the
  big-endian value itself, in \<open>[0, 2^23 - 1]\<close>, when the bit is clear, and that value
  less \<open>2^24\<close>, in \<open>[-2^23, -1]\<close>, when it is set; \<open>[0x00, 0x00, 0x01]\<close> gives 1 and
  \<open>[0xFF, 0xFF, 0xFF]\<close> gives -1. An input of any other length raises \<open>ValueError\<close>.
\<close>

theorem convert_24b_data_sign_extends:
  "(length unpacked \<noteq> 3 \<longrightarrow> convert_24b_data unpacked f = Inl ValueError) \<and>
   (0 \<le> b0 \<and> b0 \<le> 255 \<and> 0 \<le> b1 \<and> b1 \<le> 255 \<and> 0 \<le> b2 \<and> b2 \<le> 255 \<longrightarrow>
      (\<not> bit b0 7 \<longrightarrow>
         convert_24b_data [b0, b1, b2] BE_int = Inr (b0 * 65536 + b1 * 256 + b2) \<and>
         0 \<le> b0 * 65536 + b1 * 256 + b2 \<and> b0 * 65536 + b1 * 256 + b2 \<le> 2 ^ 23 - 1) \<and>
      (bit b0 7 \<longrightarrow>
         convert_24b_data [b0, b1, b2] BE_int = Inr (b0 * 65536 + b1 * 256 + b2 - 2 ^ 24) \<and>
         - (2 ^ 23) \<le> b0 * 65536 + b1 * 256 + b2 - 2 ^ 24 \<and>
         b0 * 65536 + b1 * 256 + b2 - 2 ^ 24 \<le> - 1)) \<and>
   convert_24b_data [0x00, 0x00, 0x01] BE_int = Inr 1 \<and>
   convert_24b_data [0xFF, 0xFF, 0xFF] BE_int = Inr (- 1)"
proof -
  have len: "length unpacked \<noteq> 3 \<longrightarrow> convert_24b_data unpacked f = Inl ValueError"
    by (simp add: convert_24b_data_def)
  have ex1: "convert_24b_data [0x00, 0x00, 0x01] BE_int = Inr 1"
    by (simp add: convert_24b_data_def pack_3B_def be_value_def)
  have ex2: "convert_24b_data [0xFF, 0xFF, 0xFF] BE_int = Inr (- 1)"
    by (simp add: convert_24b_data_def pack_3B_def be_value_def)
  have main: "(\<not> bit b0 7 \<longrightarrow>
         convert_24b_data [b0, b1, b2] BE_int = Inr (b0 * 65536 + b1 * 256 + b2) \<and>
         0 \<le> b0 * 65536 + b1 * 256 + b2 \<and> b0 * 65536 + b1 * 256 + b2 \<le> 2 ^ 23 - 1) \<and>
      (bit b0 7 \<longrightarrow>
         convert_24b_data [b0, b1, b2] BE_int = Inr (b0 * 65536 + b1 * 256 + b2 - 2 ^ 24) \<and>
         - (2 ^ 23) \<le> b0 * 65536 + b1 * 256 + b2 - 2 ^ 24 \<and>
         b0 * 65536 + b1 * 256 + b2 - 2 ^ 24 \<le> - 1)"
    if r: "0 \<le> b0 \<and> b0 \<le> 255 \<and> 0 \<le> b1 \<and> b1 \<le> 255 \<and> 0 \<le> b2 \<and> b2 \<le> 255"
  proof -
    have b7: "bit b0 7 \<longleftrightarrow> 128 \<le> b0" using r by (simp add: bit7_iff)
    have c: "convert_24b_data [b0, b1, b2] BE_int =
           Inr (if 128 \<le> b0 then b0 * 65536 + b1 * 256 + b2 - 2 ^ 24
                else b0 * 65536 + b1 * 256 + b2)"
      using r by (simp add: convert_24b_data_bytes(1))
    show ?thesis using r by (simp add: b7 c)
  qed
  show ?thesis using len ex1 ex2 main by blast
qed

theorem convert_24b_data_sign_extends_witness:
  "convert_24b_data [0x12, 0x34] BE_int = Inl ValueError \<and>
   convert_24b_data [0x12, 0x34, 0x56] BE_int = Inr 0x123456 \<and>
   convert_24b_data [0x80, 0x00, 0x00] BE_int = Inr (- 8388608)"
  using convert_24b_data_sign_extends [of "[0x12, 0x34]" BE_int "0x12" "0x34" "0x56"]
        convert_24b_data_sign_extends [of "[0x12, 0x34]" BE_int "0x80" "0x00" "0x00"]
  by (simp add: bit7_iff)

lemma convert_24b_data_error:
  "convert_24b_data bs f = Inl e \<Longrightarrow> e = ValueError \<or> e = StructError"
  by (auto simp add: convert_24b_data_def pack_3B_def Let_def split: if_splits)

lemma convert_channels_error:
  "convert_channels scale raw is = Inl e \<Longrightarrow> e = ValueError \<or> e = StructError"
proof (induction "is")
  case Nil
  then show ?case by simp
next
  case (Cons i "is")
  then show ?case
    by (auto simp add: convert_24b_to_float_def dest: convert_24b_data_error split: sum.splits)
qed

lemma status_slice: "py_slice (b0 # b1 # b2 # rest) 0 3 = [b0, b1, b2]"
  by (simp add: py_slice_def numeral_3_eq_3)

lemma status_word_value:
  assumes "0 \<le> b0 \<and> b0 \<le> 255 \<and> 0 \<le> b1 \<and> b1 \<le> 255 \<and> 0 \<le> b2 \<and> b2 \<le> 255"
  shows "\<exists>u. convert_24b_data (py_slice (b0 # b1 # b2 # rest) 0 3) BE_uint = Inr u \<and>
             u AND 0xffffff = b0 * 65536 + b1 * 256 + b2"
proof -
  let ?w = "b0 * 65536 + b1 * 256 + b2"
  have w: "0 \<le> ?w" "?w < 2 ^ 24" using assms by auto
  have "convert_24b_data [b0, b1, b2] BE_uint = Inr ((if 128 \<le> b0 then 255 else 0) * 2 ^ 24 + ?w)"
    using assms by (simp add: convert_24b_data_bytes(2))
  moreover have "((if 128 \<le> b0 then 255 else 0) * 2 ^ 24 + ?w) AND 0xffffff = ?w"
    using w by (rule and_low24)
  ultimately show ?thesis by (simp only: status_slice) blast
qed

lemma default_callback_in_frame:
  assumes "0 \<le> b0 \<and> b0 \<le> 255 \<and> 0 \<le> b1 \<and> b1 \<le> 255 \<and> 0 \<le> b2 \<and> b2 \<le> 255"
  shows "default_callback False scale (b0 # b1 # b2 # rest) =
     (let status_word = b0 * 65536 + b1 * 256 + b2 in
      if drop_bit 20 status_word \<noteq> 12 then Inl AssertionError
      else case convert_channels scale (b0 # b1 # b2 # rest) [0 ..< NUM_CHANNELS] of
             Inl e \<Rightarrow> Inl e
           | Inr vs \<Rightarrow> Inr \<lparr>loff_stat_p = drop_bit 12 status_word AND 0xff,
                           loff_stat_n = drop_bit 4 status_word AND 0xff, samples = vs\<rparr>)"
proof -
  obtain u where u: "convert_24b_data (py_slice (b0 # b1 # b2 # rest) 0 3) BE_uint = Inr u"
    "u AND 0xffffff = b0 * 65536 + b1 * 256 + b2"
    using status_word_value [OF assms] by blast
  show ?thesis by (simp add: default_callback_def u Let_def)
qed

text \<open>
  C4 (as the code has it). For a frame that starts with the bytes \<open>b0, b1, b2\<close>,
  \<open>default_callback\<close> on the hardware raises \<open>AssertionError\<close> exactly when the top
  four bits of the 24-bit status word differ from \<open>1100b\<close>: a status word in sync
  passes the test, any other ends the call; no flag is returned.
\<close>

theorem default_callback_sync_assert:
  assumes "0 \<le> b0 \<and> b0 \<le> 255 \<and> 0 \<le> b1 \<and> b1 \<le> 255 \<and> 0 \<le> b2 \<and> b2 \<le> 255"
  shows "(default_callback False scale (b0 # b1 # b2 # rest) = Inl AssertionError)
           = (drop_bit 20 (b0 * 65536 + b1 * 256 + b2) \<noteq> 12)"
proof (cases "drop_bit 20 (b0 * 65536 + b1 * 256 + b2) = 12")
  case True
  have "convert_channels scale (b0 # b1 # b2 # rest) [0 ..< NUM_CHANNELS] \<noteq> Inl AssertionError"
    using convert_channels_error by fastforce
  then show ?thesis
    using True by (auto simp add: default_callback_in_frame [OF assms] Let_def split: sum.splits)
next
  case False
  then show ?thesis by (simp add: default_callback_in_frame [OF assms] Let_def)
qed

theorem default_callback_sync_assert_witness:
  "default_callback False exact_uvolt (0xC0 # 0x00 # 0x00 # replicate 24 0) \<noteq> Inl AssertionError \<and>
   default_callback False exact_uvolt (0xB0 # 0x00 # 0x00 # replicate 24 0) = Inl AssertionError"
  using default_callback_sync_assert [of "0xC0" 0 0 exact_uvolt "replicate 24 0"]
        default_callback_sync_assert [of "0xB0" 0 0 exact_uvolt "replicate 24 0"]
  by (simp add: drop_bit_eq_div)

text \<open>
  The status word \<open>0x000000\<close>: the call ends in \<open>AssertionError\<close>, it does not return
  a frame marked out of sync.
\<close>

theorem default_callback_out_of_sync_aborts:
  "default_callback False exact_uvolt (0x00 # 0x00 # 0x00 # drop 3 test_frame) = Inl AssertionError"
  by (simp add: default_callback_def py_slice_def convert_24b_data_def pack_3B_def be_value_def
      eval_nat_numeral)

lemma default_callback_stub: "default_callback True scale raw = Inl NameError"
  by (simp add: default_callback_def)

lemma default_callback_zero_frame:
  "default_callback False scale (replicate 27 0) = Inl AssertionError"
  by (simp add: default_callback_def py_slice_def convert_24b_data_def pack_3B_def be_value_def
      eval_nat_numeral)

lemma py_slice_group_length:
  "i * 3 + 6 \<le> length raw \<Longrightarrow> length (py_slice raw (i * 3 + 3) ((i + 1) * 3 + 3)) = 3"
  by (simp add: py_slice_def)

lemma py_slice_group_short:
  "length raw < i * 3 + 6 \<Longrightarrow> length (py_slice raw (i * 3 + 3) ((i + 1) * 3 + 3)) \<noteq> 3"
  by (simp add: py_slice_def)

lemma py_slice_bytes: "list_all P raw \<Longrightarrow> list_all P (py_slice raw a b)"
  by (auto simp add: py_slice_def list_all_iff dest: in_set_takeD in_set_dropD)

lemma convert_24b_data_total:
  "length bs = 3 \<Longrightarrow> list_all (\<lambda>b. 0 \<le> b \<and> b \<le> 255) bs \<Longrightarrow> \<exists>v. convert_24b_data bs f = Inr v"
  by (simp add: convert_24b_data_def pack_3B_def Let_def)

lemma convert_channels_exact:
  assumes "list_all (\<lambda>b. 0 \<le> b \<and> b \<le> 255) raw"
  shows "(\<And>i. i \<in> set is \<Longrightarrow> i * 3 + 6 \<le> length raw) \<Longrightarrow>
     \<exists>vs. convert_channels scale raw is = Inr vs \<and>
          map Inr vs =
            map (\<lambda>i. convert_24b_to_float scale (py_slice raw (i * 3 + 3) ((i + 1) * 3 + 3))) is"
proof (induction "is")
  case Nil
  then show ?case by simp
next
  case (Cons i "is")
  let ?g = "py_slice raw (i * 3 + 3) ((i + 1) * 3 + 3)"
  have "length ?g = 3" by (rule py_slice_group_length) (simp add: Cons.prems)
  moreover have "list_all (\<lambda>b. 0 \<le> b \<and> b \<le> 255) ?g" using assms by (rule py_slice_bytes)
  ultimately obtain v where v: "convert_24b_data ?g BE_int = Inr v"
    using convert_24b_data_total by blast
  obtain vs where vs: "convert_channels scale raw is = Inr vs"
    "map Inr vs =
       map (\<lambda>i. convert_24b_to_float scale (py_slice raw (i * 3 + 3) ((i + 1) * 3 + 3))) is"
    using Cons.IH Cons.prems by auto
  show ?case using v vs by (simp add: convert_24b_to_float_def)
qed

lemma convert_channels_short:
  assumes "list_all (\<lambda>b. 0 \<le> b \<and> b \<le> 255) raw"
  shows "\<exists>i \<in> set is. length raw < i * 3 + 6 \<Longrightarrow> convert_channels scale raw is = Inl ValueError"
proof (induction "is")
  case Nil
  then show ?case by simp
next
  case (Cons i "is")
  let ?g = "py_slice raw (i * 3 + 3) ((i + 1) * 3 + 3)"
  show ?case
  proof (cases "length raw < i * 3 + 6")
    case True
    then have "convert_24b_data ?g BE_int = Inl ValueError"
      using py_slice_group_short [OF True] by (simp add: convert_24b_data_def)
    then show ?thesis by (simp add: convert_24b_to_float_def)
  next
    case False
    then have "length ?g = 3" by (intro py_slice_group_length) simp
    moreover have "list_all (\<lambda>b. 0 \<le> b \<and> b \<le> 255) ?g" using assms by (rule py_slice_bytes)
    ultimately obtain v where v: "convert_24b_data ?g BE_int = Inr v"
      using convert_24b_data_total by blast
    have "\<exists>j \<in> set is. length raw < j * 3 + 6" using Cons.prems False by auto
    then have "convert_channels scale raw is = Inl ValueError" by (rule Cons.IH)
    then show ?thesis using v by (simp add: convert_24b_to_float_def)
  qed
qed

text \<open>
  C5 (as the code has it). The channel count is the constant \<open>NUM_CHANNELS = 8\<close>. For
  a frame of bytes that is shorter than its status word or has a status word in sync,
  \<open>default_callback\<close> on the hardware raises \<open>ValueError\<close> when the frame is
  shorter than \<open>3 + 3 * NUM_CHANNELS\<close> bytes;
  on a frame of at least that length it returns \<open>NUM_CHANNELS\<close> values, the \<open>i\<close>-th
  being the conversion of the \<open>i\<close>-th group of three bytes after the status word.
\<close>

theorem default_callback_frame_length:
  assumes bytes: "list_all (\<lambda>b. 0 \<le> b \<and> b \<le> 255) raw"
    and sync: "length raw < 3 \<or> drop_bit 20 (be_value (take 3 raw)) = 12"
  shows "(length raw < 3 + 3 * NUM_CHANNELS \<longrightarrow>
            default_callback False scale raw = Inl ValueError) \<and>
         (3 + 3 * NUM_CHANNELS \<le> length raw \<longrightarrow>
            (\<exists>p. default_callback False scale raw = Inr p \<and>
                 length (samples p) = NUM_CHANNELS \<and>
                 (\<forall>i < NUM_CHANNELS.
                    convert_24b_to_float scale (py_slice raw (i * 3 + 3) ((i + 1) * 3 + 3))
                      = Inr (samples p ! i))))"
proof (cases "length raw < 3")
  case True
  then have "length (py_slice raw 0 3) \<noteq> 3" by (simp add: py_slice_def)
  then have "default_callback False scale raw = Inl ValueError"
    by (simp add: default_callback_def convert_24b_data_def)
  then show ?thesis using True by (simp add: NUM_CHANNELS_def)
next
  case False
  then obtain b0 b1 b2 rest where raw: "raw = b0 # b1 # b2 # rest"
    by (cases raw; cases "tl raw"; cases "tl (tl raw)") auto
  have r: "0 \<le> b0 \<and> b0 \<le> 255 \<and> 0 \<le> b1 \<and> b1 \<le> 255 \<and> 0 \<le> b2 \<and> b2 \<le> 255"
    using bytes by (simp add: raw)
  have w: "drop_bit 20 (b0 * 65536 + b1 * 256 + b2) = 12"
    using sync False by (simp add: raw be_value_def numeral_3_eq_3 ac_simps)
  have dc: "default_callback False scale raw =
      (case convert_channels scale raw [0 ..< NUM_CHANNELS] of
         Inl e \<Rightarrow> Inl e
       | Inr vs \<Rightarrow> Inr \<lparr>loff_stat_p = drop_bit 12 (b0 * 65536 + b1 * 256 + b2) AND 0xff,
                       loff_stat_n = drop_bit 4 (b0 * 65536 + b1 * 256 + b2) AND 0xff,
                       samples = vs\<rparr>)"
    unfolding raw using w by (simp add: default_callback_in_frame [OF r] Let_def)
  have short: "default_callback False scale raw = Inl ValueError"
    if "length raw < 3 + 3 * NUM_CHANNELS"
  proof -
    have "\<exists>i \<in> set [0 ..< NUM_CHANNELS]. length raw < i * 3 + 6"
      using that by (intro bexI [of _ "NUM_CHANNELS - 1"]) (auto simp add: NUM_CHANNELS_def)
    then have "convert_channels scale raw [0 ..< NUM_CHANNELS] = Inl ValueError"
      by (rule convert_channels_short [OF bytes])
    then show ?thesis by (simp add: dc)
  qed
  have exact: "\<exists>p. default_callback False scale raw = Inr p \<and>
                 length (samples p) = NUM_CHANNELS \<and>
                 (\<forall>i < NUM_CHANNELS.
                    convert_24b_to_float scale (py_slice raw (i * 3 + 3) ((i + 1) * 3 + 3))
                      = Inr (samples p ! i))"
    if "3 + 3 * NUM_CHANNELS \<le> length raw"
  proof -
    have "\<And>i. i \<in> set [0 ..< NUM_CHANNELS] \<Longrightarrow> i * 3 + 6 \<le> length raw"
      using that by auto
    then obtain vs where vs: "convert_channels scale raw [0 ..< NUM_CHANNELS] = Inr vs"
      "map Inr vs =
         map (\<lambda>i. convert_24b_to_float scale (py_slice raw (i * 3 + 3) ((i + 1) * 3 + 3)))
           [0 ..< NUM_CHANNELS]"
      using convert_channels_exact [OF bytes] by blast
    have len: "length vs = NUM_CHANNELS"
      using arg_cong [OF vs(2), of length] by simp
    have nth: "convert_24b_to_float scale (py_slice raw (i * 3 + 3) ((i + 1) * 3 + 3)) = Inr (vs ! i)"
      if "i < NUM_CHANNELS" for i
    proof -
      have "map Inr vs ! i =
          map (\<lambda>i. convert_24b_to_float scale (py_slice raw (i * 3 + 3) ((i + 1) * 3 + 3)))
            [0 ..< NUM_CHANNELS] ! i"
        by (simp only: vs(2))
      then show ?thesis using that len by simp
    qed
    show ?thesis using vs(1) len nth by (simp add: dc)
  qed
  show ?thesis using short exact by blast
qed


theorem default_callback_frame_length_witness:
  "(\<exists>p. default_callback False exact_uvolt test_frame = Inr p \<and>
        length (samples p) = NUM_CHANNELS \<and>
        (\<forall>i < NUM_CHANNELS.
           convert_24b_to_float exact_uvolt (py_slice test_frame (i * 3 + 3) ((i + 1) * 3 + 3))
             = Inr (samples p ! i))) \<and>
   default_callback False exact_uvolt (take 26 test_frame) = Inl ValueError"
proof -
  have b: "list_all (\<lambda>b. 0 \<le> b \<and> b \<le> 255) test_frame"
    by (simp add: test_frame_def)
  have s: "length test_frame < 3 \<or> drop_bit 20 (be_value (take 3 test_frame)) = 12"
    by (simp add: test_frame_def be_value_def drop_bit_eq_div)
  have b': "list_all (\<lambda>b. 0 \<le> b \<and> b \<le> 255) (take 26 test_frame)"
    by (simp add: test_frame_def)
  have s': "length (take 26 test_frame) < 3 \<or>
      drop_bit 20 (be_value (take 3 (take 26 test_frame))) = 12"
    by (simp add: test_frame_def be_value_def drop_bit_eq_div)
  have l: "length test_frame = 27" by (simp add: test_frame_def)
  show ?thesis
    using default_callback_frame_length [OF b s, of exact_uvolt]
          default_callback_frame_length [OF b' s', of exact_uvolt]
    by (simp add: l NUM_CHANNELS_def)
qed

text \<open>A frame of 28 bytes is decoded; the byte past the eighth channel is not looked at.\<close>

theorem default_callback_accepts_longer:
  "length (0xC0 # replicate 27 (0::int)) = 28 \<and>
   default_callback False exact_uvolt (0xC0 # replicate 27 0)
     = Inr \<lparr>loff_stat_p = 0, loff_stat_n = 0, samples = replicate 8 0\<rparr>"
  by (simp add: default_callback_def py_slice_def convert_24b_data_def pack_3B_def be_value_def
      convert_24b_to_float_def exact_uvolt_def NUM_CHANNELS_def drop_bit_eq_div
      eval_nat_numeral upt_rec)

subsection \<open>Configuration and register writes\<close>

text \<open>
  C1 (where the code departs from it). \<open>set_sampling_rate\<close> writes \<open>0x84\<close> for 2000,
  \<open>0x85\<close> for 1000 and \<open>0x86\<close> for 500 to \<open>REG_CONFIG1\<close> and raises \<open>ValueError\<close>
  for every other rate. 4000 is among the others: the value \<open>0x83\<close> is computed, then
  the chain that starts with the test for 2000 reaches its \<open>else\<close>; nothing is written.
\<close>

theorem set_sampling_rate_4000_raises:
  "set_sampling_rate env s =
     (if sampling_rate s = 2000 then spi_write_single_reg env REG_CONFIG1 0x84 s
      else if sampling_rate s = 1000 then spi_write_single_reg env REG_CONFIG1 0x85 s
      else if sampling_rate s = 500 then spi_write_single_reg env REG_CONFIG1 0x86 s
      else (Some ValueError, s)) \<and>
   set_sampling_rate env (s\<lparr>sampling_rate := 4000\<rparr>) = (Some ValueError, s\<lparr>sampling_rate := 4000\<rparr>)"
  by (simp add: set_sampling_rate_def)

text \<open>
  C2. While a stream is active, \<open>configure\<close> fails on its assertion and leaves the
  object as it was. With no stream active it returns, and the object differs from the
  old one at most in \<open>sampling_rate\<close> and \<open>bias_enabled\<close>: each takes the value of
  its argument when the argument is given and keeps its own otherwise.
\<close>

theorem configure_guarded:
  "(stream_active s \<longrightarrow> configure new_rate new_bias s = (Some AssertionError, s)) \<and>
   (\<not> stream_active s \<longrightarrow>
      configure new_rate new_bias s =
        (None, s\<lparr>sampling_rate := (case new_rate of None \<Rightarrow> sampling_rate s | Some r \<Rightarrow> r),
                 bias_enabled := (case new_bias of None \<Rightarrow> bias_enabled s | Some b \<Rightarrow> b)\<rparr>))"
  by (simp add: configure_def split: option.splits)

theorem configure_guarded_witness:
  "configure (Some 1000) (Some True) (initial\<lparr>stream_active := True\<rparr> :: client ads)
     = (Some AssertionError, initial\<lparr>stream_active := True\<rparr>) \<and>
   configure (Some 1000) None (initial :: client ads)
     = (None, initial\<lparr>sampling_rate := 1000, bias_enabled := False\<rparr>)"
  using configure_guarded [of "initial\<lparr>stream_active := True\<rparr> :: client ads" "Some 1000" "Some True"]
        configure_guarded [of "initial :: client ads" "Some 1000" None]
  by (simp add: initial_def)

lemma store_range_other:
  "k < a \<or> a + int (length vs) \<le> k \<Longrightarrow> store_range a vs m k = m k"
  by (induction vs arbitrary: a m) auto

lemma store_range_nth:
  "i < length vs \<Longrightarrow> store_range a vs m (a + int i) = Some (vs ! i)"
proof (induction vs arbitrary: a m i)
  case Nil
  then show ?case by simp
next
  case (Cons v vs)
  show ?case
  proof (cases i)
    case 0
    then show ?thesis by (simp add: store_range_other)
  next
    case (Suc j)
    then have "j < length vs" using Cons.prems by simp
    then have "store_range (a + 1) vs (m(a \<mapsto> v)) (a + 1 + int j) = Some (vs ! j)"
      by (rule Cons.IH)
    then show ?thesis using Suc by (simp add: add.assoc)
  qed
qed

text \<open>
  C7. \<open>spi_write_single_reg\<close> leaves \<open>byte\<close> at \<open>reg\<close> in \<open>config_registers\<close>
  whatever the mode, the lock and the bus do; on the hardware, with the lock made, it
  hands \<open>[reg | 0x40, 0x00, byte]\<close> to the bus and fails exactly when the bus does.
  \<open>spi_write_multiple_reg\<close> leaves the \<open>i\<close>-th value at \<open>base + i\<close> and every
  address outside \<open>base .. base + len - 1\<close> as it was, again whatever happens after;
  on the hardware it hands \<open>[base | 0x40, len - 1] + vals\<close> to the bus.
\<close>

theorem register_writes_mirror:
  "config_registers (snd (spi_write_single_reg env reg byte s)) = (config_registers s)(reg \<mapsto> byte) \<and>
   (\<not> STUB_API env \<and> spi_lock s \<longrightarrow>
      spi_log (snd (spi_write_single_reg env reg byte s)) = spi_log s @ [[reg OR 0x40, 0x00, byte]] \<and>
      fst (spi_write_single_reg env reg byte s) =
        (case xfer env (spi_log s) [reg OR 0x40, 0x00, byte] of Inl e \<Rightarrow> Some e | Inr r \<Rightarrow> None)) \<and>
   (\<forall>i < length vals.
      config_registers (snd (spi_write_multiple_reg env base vals s)) (base + int i) = Some (vals ! i)) \<and>
   (\<forall>a. a < base \<or> base + int (length vals) \<le> a \<longrightarrow>
      config_registers (snd (spi_write_multiple_reg env base vals s)) a = config_registers s a) \<and>
   (\<not> STUB_API env \<and> spi_lock s \<longrightarrow>
      spi_log (snd (spi_write_multiple_reg env base vals s))
        = spi_log s @ [[base OR 0x40, int (length vals) - 1] @ vals] \<and>
      fst (spi_write_multiple_reg env base vals s) =
        (case xfer env (spi_log s) ([base OR 0x40, int (length vals) - 1] @ vals) of
           Inl e \<Rightarrow> Some e | Inr r \<Rightarrow> None))"
proof -
  have single: "config_registers (snd (spi_write_single_reg env reg byte s))
      = (config_registers s)(reg \<mapsto> byte)"
    by (simp add: spi_write_single_reg_def locked_xfer_def discard_def Let_def split: sum.splits)
  have single_tx: "spi_log (snd (spi_write_single_reg env reg byte s)) = spi_log s @ [[reg OR 0x40, 0x00, byte]] \<and>
      fst (spi_write_single_reg env reg byte s) =
        (case xfer env (spi_log s) [reg OR 0x40, 0x00, byte] of Inl e \<Rightarrow> Some e | Inr r \<Rightarrow> None)"
    if "\<not> STUB_API env \<and> spi_lock s"
    using that
    by (simp add: spi_write_single_reg_def locked_xfer_def discard_def Let_def split: sum.splits)
  have image: "config_registers (snd (spi_write_multiple_reg env base vals s))
      = store_range base vals (config_registers s)"
    by (simp add: spi_write_multiple_reg_def locked_xfer_def discard_def Let_def split: sum.splits)
  have multi_tx: "spi_log (snd (spi_write_multiple_reg env base vals s))
        = spi_log s @ [[base OR 0x40, int (length vals) - 1] @ vals] \<and>
      fst (spi_write_multiple_reg env base vals s) =
        (case xfer env (spi_log s) ([base OR 0x40, int (length vals) - 1] @ vals) of
           Inl e \<Rightarrow> Some e | Inr r \<Rightarrow> None)"
    if "\<not> STUB_API env \<and> spi_lock s"
    using that
    by (simp add: spi_write_multiple_reg_def locked_xfer_def discard_def Let_def split: sum.splits)
  show ?thesis
    using single single_tx multi_tx
    by (simp add: image store_range_nth store_range_other)
qed

theorem register_writes_mirror_witness:
  "fst (spi_write_single_reg broken_bus REG_CONFIG1 0x86 (initial\<lparr>spi_lock := True\<rparr>)) = Some OSError \<and>
   config_registers (snd (spi_write_single_reg broken_bus REG_CONFIG1 0x86 (initial\<lparr>spi_lock := True\<rparr>)))
     REG_CONFIG1 = Some 0x86 \<and>
   spi_log (snd (spi_write_single_reg broken_bus REG_CONFIG1 0x86 (initial\<lparr>spi_lock := True\<rparr>)))
     = [[0x41, 0x00, 0x86]] \<and>
   config_registers (snd (spi_write_multiple_reg broken_bus REG_CHnSET_BASE [0x60, 0x61] (initial\<lparr>spi_lock := True\<rparr>)))
     (REG_CHnSET_BASE + 1) = Some 0x61 \<and>
   config_registers (snd (spi_write_multiple_reg broken_bus REG_CHnSET_BASE [0x60, 0x61] (initial\<lparr>spi_lock := True\<rparr>)))
     REG_ID = None \<and>
   spi_log (snd (spi_write_multiple_reg broken_bus REG_CHnSET_BASE [0x60, 0x61] (initial\<lparr>spi_lock := True\<rparr>)))
     = [[0x45, 0x01, 0x60, 0x61]]"
proof -
  let ?s = "initial\<lparr>spi_lock := True\<rparr> :: client ads"
  let ?one = "snd (spi_write_single_reg broken_bus REG_CONFIG1 0x86 ?s)"
  let ?two = "snd (spi_write_multiple_reg broken_bus REG_CHnSET_BASE [0x60, 0x61] ?s)"
  note t = register_writes_mirror [of broken_bus REG_CONFIG1 "0x86" ?s "[0x60, 0x61]" REG_CHnSET_BASE]
  have hw: "\<not> STUB_API broken_bus \<and> spi_lock ?s" by (simp add: broken_bus_def)
  have log0: "spi_log ?s = []" by (simp add: initial_def)
  have regs0: "config_registers ?s REG_ID = None" by (simp add: initial_def)
  have bus: "xfer broken_bus l tx = Inl OSError" for l tx by (simp add: broken_bus_def)
  have one: "(1::nat) < length [0x60, 0x61 :: int]" by simp
  have out: "REG_ID < REG_CHnSET_BASE \<or> REG_CHnSET_BASE + int (length [0x60, 0x61 :: int]) \<le> REG_ID"
    by (simp add: REG_ID_def REG_CHnSET_BASE_def)
  have b: "config_registers ?one REG_CONFIG1 = Some 0x86"
    using t by simp
  have "spi_log ?one = spi_log ?s @ [[REG_CONFIG1 OR 0x40, 0x00, 0x86]] \<and>
      fst (spi_write_single_reg broken_bus REG_CONFIG1 0x86 ?s) =
        (case xfer broken_bus (spi_log ?s) [REG_CONFIG1 OR 0x40, 0x00, 0x86] of
           Inl e \<Rightarrow> Some e | Inr r \<Rightarrow> None)"
    using t hw by blast
  then have ac: "spi_log ?one = [[0x41, 0x00, 0x86]] \<and>
      fst (spi_write_single_reg broken_bus REG_CONFIG1 0x86 ?s) = Some OSError"
    by (simp add: log0 bus REG_CONFIG1_def)
  have "config_registers ?two (REG_CHnSET_BASE + int 1) = Some ([0x60, 0x61] ! 1)"
    using t one by blast
  then have d: "config_registers ?two (REG_CHnSET_BASE + 1) = Some 0x61" by simp
  have "config_registers ?two REG_ID = config_registers ?s REG_ID"
    using t out by blast
  then have e: "config_registers ?two REG_ID = None" by (simp only: regs0)
  have "spi_log ?two = spi_log ?s @ [[REG_CHnSET_BASE OR 0x40, int (length [0x60, 0x61 :: int]) - 1] @ [0x60, 0x61]]"
    using t hw by blast
  then have f: "spi_log ?two = [[0x45, 0x01, 0x60, 0x61]]"
    by (simp add: log0 REG_CHnSET_BASE_def)
  show ?thesis using ac b d e f by simp
qed

subsection \<open>The ready-signal handler\<close>

lemma broadcast_returns:
  "(\<And>h. h \<in> set hs \<Longrightarrow> call env h raw = None) \<Longrightarrow>
     broadcast env hs raw s = (None, s\<lparr>delivered := delivered s @ map (\<lambda>h. (h, raw)) hs\<rparr>)"
  by (induction hs arbitrary: s) (simp_all add: Let_def)

lemma broadcast_raises:
  "(\<And>h. h \<in> set pre \<Longrightarrow> call env h raw = None) \<Longrightarrow> call env h raw = Some e \<Longrightarrow>
     broadcast env (pre @ h # post) raw s
       = (Some e, s\<lparr>delivered := delivered s @ map (\<lambda>h. (h, raw)) (pre @ [h])\<rparr>)"
  by (induction pre arbitrary: s) (simp_all add: Let_def)

lemma broadcast_spi_log: "spi_log (snd (broadcast env hs raw s)) = spi_log s"
  by (induction hs arbitrary: s) (simp_all add: Let_def split: option.splits)

lemma read_frame_handles:
  "spi_read_multiple_bytes env n s = (r, s1) \<Longrightarrow>
     clientUpdateHandles s1 = clientUpdateHandles s \<and> delivered s1 = delivered s"
  by (auto simp add: spi_read_multiple_bytes_def locked_xfer_def split: if_splits)

lemma drdy_callback_reads:
  assumes "\<not> STUB_API env" and "spi_lock s" and "stream_active s"
  shows "spi_log (snd (drdy_callback env s)) = spi_log s @ [replicate (3 + 3 * NUM_CHANNELS) 0]"
  using assms
  by (simp add: drdy_callback_def spi_read_multiple_bytes_def locked_xfer_def broadcast_spi_log
      NUM_CHANNELS_def split: sum.splits)

text \<open>
  C9 (as the code has it). \<open>register_client\<close> appends to the end of the list of
  subscribers. On a ready signal while the stream is active, with \<open>raw\<close> the frame
  read: when no subscriber raises on \<open>raw\<close>, each is invoked once with \<open>raw\<close>, in
  the order of the list; when one raises, those before it and itself have been invoked
  once, in order, those after it are not invoked, and the exception leaves
  \<open>drdy_callback\<close>.
\<close>

theorem drdy_callback_broadcast:
  assumes "stream_active s"
    and "spi_read_multiple_bytes env (3 + NUM_CHANNELS * 3) s = (Inr raw, s1)"
  shows "register_client h s = s\<lparr>clientUpdateHandles := clientUpdateHandles s @ [h]\<rparr> \<and>
     ((\<forall>h \<in> set (clientUpdateHandles s). call env h raw = None) \<longrightarrow>
        drdy_callback env s =
          (None, s1\<lparr>delivered := delivered s @ map (\<lambda>h. (h, raw)) (clientUpdateHandles s)\<rparr>)) \<and>
     (\<forall>pre h' post e.
        clientUpdateHandles s = pre @ h' # post \<and>
        (\<forall>h \<in> set pre. call env h raw = None) \<and> call env h' raw = Some e \<longrightarrow>
        drdy_callback env s =
          (Some e, s1\<lparr>delivered := delivered s @ map (\<lambda>h. (h, raw)) (pre @ [h'])\<rparr>))"
proof -
  have same: "clientUpdateHandles s1 = clientUpdateHandles s" "delivered s1 = delivered s"
    using read_frame_handles [OF assms(2)] by simp_all
  have d: "drdy_callback env s = broadcast env (clientUpdateHandles s) raw s1"
    using assms by (simp add: drdy_callback_def same)
  have all: "drdy_callback env s =
          (None, s1\<lparr>delivered := delivered s @ map (\<lambda>h. (h, raw)) (clientUpdateHandles s)\<rparr>)"
    if "\<forall>h \<in> set (clientUpdateHandles s). call env h raw = None"
    using that by (simp add: d broadcast_returns same)
  have first: "drdy_callback env s =
          (Some e, s1\<lparr>delivered := delivered s @ map (\<lambda>h. (h, raw)) (pre @ [h'])\<rparr>)"
    if "clientUpdateHandles s = pre @ h' # post"
      and "\<forall>h \<in> set pre. call env h raw = None" and "call env h' raw = Some e"
    for pre h' post e
    using that by (simp add: d broadcast_raises same)
  show ?thesis using all first by (simp add: register_client_def)
qed

lemma default_callback_test_frame:
  "default_callback False exact_uvolt test_frame
     = Inr \<lparr>loff_stat_p = 0x12, loff_stat_n = 0x34,
            samples = map exact_uvolt [1, 2, 3, 4, 5, 6, 7, - 1]\<rparr>"
  by (simp add: default_callback_def py_slice_def convert_24b_data_def pack_3B_def be_value_def
      convert_24b_to_float_def NUM_CHANNELS_def drop_bit_eq_div test_frame_def
      eval_nat_numeral upt_rec)

lemma bench_read:
  "spi_read_multiple_bytes (bench False frame) n (streaming hs)
     = (Inr (take n (frame @ replicate n 0)), (streaming hs)\<lparr>spi_log := [replicate n 0]\<rparr>)"
  by (simp add: spi_read_multiple_bytes_def locked_xfer_def bench_def streaming_def initial_def)

theorem drdy_callback_broadcast_witness:
  "clientUpdateHandles (register_client Printer (streaming [Printer, Recorder]))
     = [Printer, Recorder, Printer] \<and>
   drdy_callback (bench False test_frame) (streaming [Printer, Recorder])
     = (None, (streaming [Printer, Recorder])
          \<lparr>spi_log := [replicate 27 0],
            delivered := [(Printer, test_frame), (Recorder, test_frame)]\<rparr>) \<and>
   drdy_callback (bench False []) (streaming [Recorder, Printer, Recorder])
     = (Some AssertionError, (streaming [Recorder, Printer, Recorder])
          \<lparr>spi_log := [replicate 27 0],
            delivered := [(Recorder, replicate 27 0), (Printer, replicate 27 0)]\<rparr>)"
proof -
  let ?e1 = "bench False test_frame" and ?e2 = "bench False []"
  let ?s1 = "streaming [Printer, Recorder]" and ?s2 = "streaming [Recorder, Printer, Recorder]"
  have act: "stream_active (streaming hs)" for hs :: "client list"
    by (simp add: streaming_def initial_def)
  have hs: "clientUpdateHandles (streaming hs) = hs" for hs :: "client list"
    by (simp add: streaming_def initial_def)
  have dl: "delivered (streaming hs) = []" for hs :: "client list"
    by (simp add: streaming_def initial_def)
  have r1: "spi_read_multiple_bytes ?e1 (3 + NUM_CHANNELS * 3) ?s1
      = (Inr test_frame, ?s1\<lparr>spi_log := [replicate 27 0]\<rparr>)"
    by (simp add: bench_read NUM_CHANNELS_def) (simp add: test_frame_def)
  have r2: "spi_read_multiple_bytes ?e2 (3 + NUM_CHANNELS * 3) ?s2
      = (Inr (replicate 27 0), ?s2\<lparr>spi_log := [replicate 27 0]\<rparr>)"
    by (simp add: bench_read NUM_CHANNELS_def)
  have c1: "\<forall>h \<in> set (clientUpdateHandles ?s1). call ?e1 h test_frame = None"
    by (simp add: hs bench_def default_callback_test_frame)
  have c2: "clientUpdateHandles ?s2 = [Recorder] @ Printer # [Recorder] \<and>
      (\<forall>h \<in> set [Recorder]. call ?e2 h (replicate 27 0) = None) \<and>
      call ?e2 Printer (replicate 27 0) = Some AssertionError"
    by (simp add: hs bench_def default_callback_zero_frame)
  have a: "clientUpdateHandles (register_client Printer ?s1) = [Printer, Recorder, Printer]"
    using drdy_callback_broadcast [OF act r1, of Printer] by (simp add: hs)
  have b: "drdy_callback ?e1 ?s1
     = (None, ?s1\<lparr>spi_log := [replicate 27 0],
            delivered := [(Printer, test_frame), (Recorder, test_frame)]\<rparr>)"
    using drdy_callback_broadcast [OF act r1, of Printer] c1 by (simp add: hs dl)
  have "drdy_callback ?e2 ?s2
     = (Some AssertionError, ?s2\<lparr>spi_log := [replicate 27 0],
            delivered := delivered ?s2 @ map (\<lambda>h. (h, replicate 27 0)) ([Recorder] @ [Printer])\<rparr>)"
    using drdy_callback_broadcast [OF act r2, of Printer] c2 by blast
  then have c: "drdy_callback ?e2 ?s2
     = (Some AssertionError, ?s2\<lparr>spi_log := [replicate 27 0],
            delivered := [(Recorder, replicate 27 0), (Printer, replicate 27 0)]\<rparr>)"
    by (simp add: dl)
  show ?thesis using a b c by simp
qed

text \<open>
  A frame out of sync, \<open>default_callback\<close> registered before another subscriber: the
  other one is not invoked.
\<close>

theorem drdy_callback_stops_at_raise:
  "(Recorder, replicate 27 0)
     \<notin> set (delivered (snd (drdy_callback (bench False []) (streaming [Printer, Recorder]))))"
  by (simp add: drdy_callback_def bench_read NUM_CHANNELS_def Let_def)
    (simp add: bench_def default_callback_zero_frame streaming_def initial_def)

lemma stop_stream_returned:
  "fst (stop_stream env s) = None \<Longrightarrow>
     \<not> stream_active (snd (stop_stream env s)) \<and> delivered (snd (stop_stream env s)) = delivered s"
  by (auto simp add: stop_stream_def set_APIAlive_def spi_transmit_byte_def locked_xfer_def discard_def
      set_stream_active_def split: if_splits sum.splits)

lemma idle_event:
  "\<not> stream_active s \<Longrightarrow>
     \<not> stream_active (handle_event env ev s) \<and>
     delivered (handle_event env ev s) = delivered s \<and>
     spi_log (handle_event env ev s) = spi_log s"
  by (cases ev) (auto simp add: drdy_callback_def configure_def register_client_def
      split: option.splits)

lemma idle_events:
  "\<not> stream_active s \<Longrightarrow>
     \<not> stream_active (fold (handle_event env) evs s) \<and>
     delivered (fold (handle_event env) evs s) = delivered s \<and>
     spi_log (fold (handle_event env) evs s) = spi_log s"
proof (induction evs arbitrary: s)
  case Nil
  then show ?case by simp
next
  case (Cons ev evs)
  have step: "\<not> stream_active (handle_event env ev s)"
    "delivered (handle_event env ev s) = delivered s"
    "spi_log (handle_event env ev s) = spi_log s"
    using idle_event [OF Cons.prems] by simp_all
  show ?case using Cons.IH [OF step(1)] step by simp
qed

text \<open>
  C8. Once \<open>stop_stream\<close> has returned, the stream is not active; a ready signal
  leaves the object as it is; and after any sequence of ready signals and calls of
  \<open>configure\<close> and \<open>register_client\<close> the subscriber invocations are those made
  before \<open>stop_stream\<close>, the bus log is the one \<open>stop_stream\<close> left, and the
  stream is still not active.
\<close>

theorem stop_stream_silences:
  assumes "fst (stop_stream env s) = None"
  shows "\<not> stream_active (snd (stop_stream env s)) \<and>
     drdy_callback env (snd (stop_stream env s)) = (None, snd (stop_stream env s)) \<and>
     delivered (fold (handle_event env) evs (snd (stop_stream env s))) = delivered s \<and>
     spi_log (fold (handle_event env) evs (snd (stop_stream env s)))
       = spi_log (snd (stop_stream env s)) \<and>
     \<not> stream_active (fold (handle_event env) evs (snd (stop_stream env s)))"
proof -
  have off: "\<not> stream_active (snd (stop_stream env s))"
    and same: "delivered (snd (stop_stream env s)) = delivered s"
    using stop_stream_returned [OF assms] by simp_all
  have "drdy_callback env (snd (stop_stream env s)) = (None, snd (stop_stream env s))"
    using off by (simp add: drdy_callback_def)
  then show ?thesis using off same idle_events [OF off] by simp
qed

theorem stop_stream_silences_witness:
  "delivered (fold (handle_event (bench False test_frame))
       [Ready_signal, Register Recorder, Configure (Some 1000) None, Ready_signal]
       (snd (stop_stream (bench False test_frame) (streaming [Printer])))) = [] \<and>
   spi_log (fold (handle_event (bench False test_frame))
       [Ready_signal, Register Recorder, Configure (Some 1000) None, Ready_signal]
       (snd (stop_stream (bench False test_frame) (streaming [Printer])))) = [[0x11]]"
proof -
  let ?stopped = "snd (stop_stream (bench False test_frame) (streaming [Printer]))"
  let ?evs = "[Ready_signal, Register Recorder, Configure (Some 1000) None, Ready_signal]"
  have st: "stop_stream (bench False test_frame) (streaming [Printer])
      = (None, (streaming [Printer])\<lparr>spi_log := [[0x11]], stream_active := False, APIAlive := False\<rparr>)"
    by (simp add: stop_stream_def set_APIAlive_def spi_transmit_byte_def locked_xfer_def discard_def
        set_stream_active_def bench_def streaming_def initial_def SDATAC_def)
  have dl: "delivered (streaming [Printer]) = []"
    by (simp add: streaming_def initial_def)
  have lg: "spi_log ?stopped = [[0x11]]"
    by (simp add: st)
  have r: "fst (stop_stream (bench False test_frame) (streaming [Printer])) = None"
    by (simp add: st)
  note t = stop_stream_silences [OF r, of ?evs]
  have d: "delivered (fold (handle_event (bench False test_frame)) ?evs ?stopped)
      = delivered (streaming [Printer])"
    by (rule t [THEN conjunct2, THEN conjunct2, THEN conjunct1])
  have l: "spi_log (fold (handle_event (bench False test_frame)) ?evs ?stopped) = spi_log ?stopped"
    by (rule t [THEN conjunct2, THEN conjunct2, THEN conjunct2, THEN conjunct1])
  show ?thesis using d l by (simp only: dl lg)
qed

subsection \<open>The control pins\<close>

lemma set_start_raises: "set_start env state s = (Some AttributeError, s)"
  by (simp add: set_start_def class_names_def)

lemma set_nreset_raises: "set_nreset env state s = (Some AttributeError, s)"
  by (simp add: set_nreset_def class_names_def)

lemma set_npwrdn_raises: "set_npwrdn env state s = (Some AttributeError, s)"
  by (simp add: set_npwrdn_def class_names_def)

lemma run_all_keeps:
  "(\<And>c s. c \<in> set cs \<Longrightarrow> f (snd (c s)) = f s) \<Longrightarrow> f (snd (run_all cs s)) = f s"
proof (induction cs arbitrary: s)
  case Nil
  then show ?case by simp
next
  case (Cons c cs)
  have head: "f (snd (c s)) = f s" by (rule Cons.prems) simp
  have tail: "f (snd (run_all cs s')) = f s'" for s'
    by (rule Cons.IH) (simp add: Cons.prems)
  show ?case
  proof (cases "c s")
    case (Pair r s')
    then show ?thesis using head tail [of s'] by (cases r) simp_all
  qed
qed

lemma run_all_cut:
  "(\<And>s. fst (c s) \<noteq> None) \<Longrightarrow> run_all (cs @ c # rest) s = run_all (cs @ [c]) s"
proof (induction cs arbitrary: s)
  case Nil
  have "fst (c s) \<noteq> None" by (rule Nil)
  then show ?case by (cases "c s") (auto split: option.splits)
next
  case (Cons d cs)
  then show ?case by (cases "d s") (auto split: option.splits)
qed

lemma run_all_ok:
  "P s \<Longrightarrow> (\<And>c s. c \<in> set cs \<Longrightarrow> P s \<Longrightarrow> fst (c s) = None \<and> P (snd (c s))) \<Longrightarrow>
     fst (run_all cs s) = None \<and> P (snd (run_all cs s))"
proof (induction cs arbitrary: s)
  case Nil
  then show ?case by simp
next
  case (Cons c cs)
  have head: "fst (c s) = None \<and> P (snd (c s))" using Cons.prems by simp
  have "fst (run_all cs (snd (c s))) = None \<and> P (snd (run_all cs (snd (c s))))"
    using head Cons.prems(2) by (intro Cons.IH) simp_all
  then show ?case using head by (cases "c s") auto
qed


lemma transmit_keeps:
  "byte \<noteq> RDATAC \<Longrightarrow>
     gpio_log (snd (spi_transmit_byte env byte s)) = gpio_log s \<and>
     rdatac_sent (snd (spi_transmit_byte env byte s)) = rdatac_sent s"
  by (simp add: spi_transmit_byte_def locked_xfer_def discard_def rdatac_sent_def
      split: sum.splits)

lemma write_single_keeps:
  "gpio_log (snd (spi_write_single_reg env reg byte s)) = gpio_log s \<and>
   rdatac_sent (snd (spi_write_single_reg env reg byte s)) = rdatac_sent s"
  by (simp add: spi_write_single_reg_def locked_xfer_def discard_def rdatac_sent_def Let_def
      split: sum.splits)

lemma write_multiple_keeps:
  "gpio_log (snd (spi_write_multiple_reg env base vals s)) = gpio_log s \<and>
   rdatac_sent (snd (spi_write_multiple_reg env base vals s)) = rdatac_sent s"
  by (simp add: spi_write_multiple_reg_def locked_xfer_def discard_def rdatac_sent_def Let_def
      split: sum.splits)

lemma set_sampling_rate_keeps:
  "gpio_log (snd (set_sampling_rate env s)) = gpio_log s \<and>
   rdatac_sent (snd (set_sampling_rate env s)) = rdatac_sent s"
  by (simp add: set_sampling_rate_def write_single_keeps)

lemma reset_ongoing_state_keeps:
  "gpio_log (snd (reset_ongoing_state env s)) = gpio_log s \<and>
   rdatac_sent (snd (reset_ongoing_state env s)) = rdatac_sent s"
proof -
  have "(\<lambda>s. (gpio_log s, rdatac_sent s)) (snd (reset_ongoing_state env s))
      = (\<lambda>s. (gpio_log s, rdatac_sent s)) s"
    unfolding reset_ongoing_state_def
    by (rule run_all_keeps)
      (auto simp add: transmit_keeps write_single_keeps set_sampling_rate_keeps
        write_multiple_keeps configure_all_channels_def SDATAC_def RDATAC_def)
  then show ?thesis by simp
qed

lemma configure_dc_leads_off_keeps:
  "gpio_log (snd (configure_dc_leads_off env enable s)) = gpio_log s \<and>
   rdatac_sent (snd (configure_dc_leads_off env enable s)) = rdatac_sent s"
proof -
  have "(\<lambda>s. (gpio_log s, rdatac_sent s)) (snd (configure_dc_leads_off env enable s))
      = (\<lambda>s. (gpio_log s, rdatac_sent s)) s"
    unfolding configure_dc_leads_off_def
    by (cases enable; simp only: if_True if_False; rule run_all_keeps)
      (auto simp add: write_single_keeps)
  then show ?thesis by simp
qed

lemma setup_bias_drive_keeps:
  "gpio_log (snd (setup_bias_drive env s)) = gpio_log s \<and>
   rdatac_sent (snd (setup_bias_drive env s)) = rdatac_sent s"
proof (cases "bias_enabled s")
  case False
  then show ?thesis by (simp add: setup_bias_drive_def)
next
  case True
  have "(\<lambda>s. (gpio_log s, rdatac_sent s)) (snd (run_all
            [spi_write_single_reg env REG_BIAS_SENSP (2 ^ NUM_CHANNELS - 1),
             spi_write_single_reg env REG_BIAS_SENSN (2 ^ NUM_CHANNELS - 1),
             spi_write_single_reg env REG_CONFIG3 0xEC] s))
      = (\<lambda>s. (gpio_log s, rdatac_sent s)) s"
    by (rule run_all_keeps) (auto simp add: write_single_keeps)
  then show ?thesis using True by (simp add: setup_bias_drive_def Let_def)
qed

lemma setup_exg_mode_keeps:
  "gpio_log (snd (setup_exg_mode env s)) = gpio_log s \<and>
   rdatac_sent (snd (setup_exg_mode env s)) = rdatac_sent s"
proof -
  have "(\<lambda>s. (gpio_log s, rdatac_sent s)) (snd (setup_exg_mode env s))
      = (\<lambda>s. (gpio_log s, rdatac_sent s)) s"
    unfolding setup_exg_mode_def
    by (rule run_all_keeps)
      (auto simp add: write_single_keeps write_multiple_keeps configure_all_channels_def
        configure_dc_leads_off_keeps setup_bias_drive_keeps)
  then show ?thesis by simp
qed

lemma setup_test_mode_keeps:
  "gpio_log (snd (setup_test_mode env s)) = gpio_log s \<and>
   rdatac_sent (snd (setup_test_mode env s)) = rdatac_sent s"
proof -
  have "(\<lambda>s. (gpio_log s, rdatac_sent s)) (snd (setup_test_mode env s))
      = (\<lambda>s. (gpio_log s, rdatac_sent s)) s"
    unfolding setup_test_mode_def
    by (rule run_all_keeps)
      (auto simp add: transmit_keeps write_single_keeps write_multiple_keeps
        configure_all_channels_def configure_dc_leads_off_keeps SDATAC_def RDATAC_def)
  then show ?thesis by simp
qed

lemma set_stream_active_keeps:
  "gpio_log (snd (set_stream_active b s)) = gpio_log s \<and>
   rdatac_sent (snd (set_stream_active b s)) = rdatac_sent s"
  by (simp add: set_stream_active_def rdatac_sent_def)

lemma start_stops_at_set_start:
  "run_all [pre, mode, set_stream_active True, set_start env True, spi_transmit_byte env RDATAC] s
     = run_all [pre, mode, set_stream_active True, set_start env True] s"
  using run_all_cut [of "set_start env True" "[pre, mode, set_stream_active True]"
      "[spi_transmit_byte env RDATAC]" s]
  by (simp add: set_start_raises)

lemma start_keeps:
  assumes "\<And>s. gpio_log (snd (pre s)) = gpio_log s \<and> rdatac_sent (snd (pre s)) = rdatac_sent s"
    and "\<And>s. gpio_log (snd (mode s)) = gpio_log s \<and> rdatac_sent (snd (mode s)) = rdatac_sent s"
  shows "gpio_log (snd (run_all [pre, mode, set_stream_active True, set_start env True,
            spi_transmit_byte env RDATAC] s)) = gpio_log s \<and>
         rdatac_sent (snd (run_all [pre, mode, set_stream_active True, set_start env True,
            spi_transmit_byte env RDATAC] s)) = rdatac_sent s"
proof -
  have "(\<lambda>s. (gpio_log s, rdatac_sent s))
          (snd (run_all [pre, mode, set_stream_active True, set_start env True] s))
      = (\<lambda>s. (gpio_log s, rdatac_sent s)) s"
    by (rule run_all_keeps)
      (auto simp add: assms set_start_raises set_stream_active_keeps)
  then show ?thesis by (simp del: run_all.simps add: start_stops_at_set_start)
qed

lemma start_error:
  "fst (run_all [pre, mode, set_stream_active True, set_start env True,
            spi_transmit_byte env RDATAC] s)
     = (case fst (run_all [pre, mode] s) of Some e \<Rightarrow> Some e | None \<Rightarrow> Some AttributeError)"
  by (simp add: set_start_raises set_stream_active_def split: prod.splits option.splits)

lemma locked_xfer_ok:
  assumes "\<forall>l tx. \<not> isl (xfer env l tx)" and "spi_lock s"
  shows "discard (locked_xfer env tx s) = (None, s\<lparr>spi_log := spi_log s @ [tx]\<rparr>)"
proof -
  have "\<not> isl (xfer env (spi_log s) tx)" using assms(1) by simp
  then obtain r where "xfer env (spi_log s) tx = Inr r" by (cases "xfer env (spi_log s) tx") auto
  then show ?thesis using assms(2) by (simp add: locked_xfer_def discard_def)
qed

lemma transmit_ok:
  "healthy env s \<Longrightarrow>
     fst (spi_transmit_byte env byte s) = None \<and> healthy env (snd (spi_transmit_byte env byte s))"
  unfolding healthy_def by (auto simp add: spi_transmit_byte_def locked_xfer_ok)

lemma write_single_ok:
  "healthy env s \<Longrightarrow>
     fst (spi_write_single_reg env reg byte s) = None \<and>
     healthy env (snd (spi_write_single_reg env reg byte s))"
  unfolding healthy_def by (auto simp add: spi_write_single_reg_def locked_xfer_ok Let_def)

lemma write_multiple_ok:
  "healthy env s \<Longrightarrow>
     fst (spi_write_multiple_reg env base vals s) = None \<and>
     healthy env (snd (spi_write_multiple_reg env base vals s))"
  unfolding healthy_def by (auto simp add: spi_write_multiple_reg_def locked_xfer_ok Let_def)

lemma set_sampling_rate_ok:
  assumes "healthy env s"
  shows "fst (set_sampling_rate env s) = None \<and> healthy env (snd (set_sampling_rate env s))"
proof -
  obtain v where "set_sampling_rate env s = spi_write_single_reg env REG_CONFIG1 v s"
    using assms by (auto simp add: set_sampling_rate_def healthy_def)
  then show ?thesis using write_single_ok [OF assms, of REG_CONFIG1 v] by simp
qed

lemma reset_ongoing_state_ok:
  "healthy env s \<Longrightarrow>
     fst (reset_ongoing_state env s) = None \<and> healthy env (snd (reset_ongoing_state env s))"
  unfolding reset_ongoing_state_def
  by (rule run_all_ok [where P = "healthy env"])
    (auto simp add: transmit_ok write_single_ok write_multiple_ok set_sampling_rate_ok
      configure_all_channels_def)

lemma configure_dc_leads_off_ok:
  "healthy env s \<Longrightarrow>
     fst (configure_dc_leads_off env enable s) = None \<and>
     healthy env (snd (configure_dc_leads_off env enable s))"
  unfolding configure_dc_leads_off_def
  by (cases enable; simp only: if_True if_False; rule run_all_ok [where P = "healthy env"])
    (auto simp add: write_single_ok)

lemma setup_bias_drive_ok:
  assumes "healthy env s"
  shows "fst (setup_bias_drive env s) = None \<and> healthy env (snd (setup_bias_drive env s))"
proof (cases "bias_enabled s")
  case False
  then show ?thesis using assms by (simp add: setup_bias_drive_def)
next
  case True
  have "fst (run_all
            [spi_write_single_reg env REG_BIAS_SENSP (2 ^ NUM_CHANNELS - 1),
             spi_write_single_reg env REG_BIAS_SENSN (2 ^ NUM_CHANNELS - 1),
             spi_write_single_reg env REG_CONFIG3 0xEC] s) = None \<and>
        healthy env (snd (run_all
            [spi_write_single_reg env REG_BIAS_SENSP (2 ^ NUM_CHANNELS - 1),
             spi_write_single_reg env REG_BIAS_SENSN (2 ^ NUM_CHANNELS - 1),
             spi_write_single_reg env REG_CONFIG3 0xEC] s))"
    by (rule run_all_ok [where P = "healthy env", OF assms]) (auto simp add: write_single_ok)
  then show ?thesis using True by (simp add: setup_bias_drive_def Let_def)
qed

lemma setup_exg_mode_ok:
  "healthy env s \<Longrightarrow>
     fst (setup_exg_mode env s) = None \<and> healthy env (snd (setup_exg_mode env s))"
  unfolding setup_exg_mode_def
  by (rule run_all_ok [where P = "healthy env"])
    (auto simp add: write_single_ok write_multiple_ok configure_all_channels_def
      configure_dc_leads_off_ok setup_bias_drive_ok)

lemma setup_test_mode_ok:
  "healthy env s \<Longrightarrow>
     fst (setup_test_mode env s) = None \<and> healthy env (snd (setup_test_mode env s))"
  unfolding setup_test_mode_def
  by (rule run_all_ok [where P = "healthy env"])
    (auto simp add: transmit_ok write_single_ok write_multiple_ok configure_all_channels_def
      configure_dc_leads_off_ok)

lemma configured_ok:
  assumes "healthy env s"
    and "\<And>s. healthy env s \<Longrightarrow> fst (mode s) = None \<and> healthy env (snd (mode s))"
  shows "fst (run_all [reset_ongoing_state env, mode] s) = None"
proof -
  have "fst (run_all [reset_ongoing_state env, mode] s) = None \<and>
      healthy env (snd (run_all [reset_ongoing_state env, mode] s))"
    by (rule run_all_ok [where P = "healthy env", OF assms(1)])
      (auto simp add: reset_ongoing_state_ok assms(2))
  then show ?thesis by simp
qed

lemma start_sets_flag:
  "fst (run_all [pre, mode] s) = None \<Longrightarrow>
     stream_active (snd (run_all [pre, mode, set_stream_active True, set_start env True,
            spi_transmit_byte env RDATAC] s))"
  by (auto simp add: set_start_raises set_stream_active_def split: prod.splits option.splits)

lemma setup_levels_append: "setup_levels (cs @ ds) = setup_levels cs @ setup_levels ds"
  by (induction cs rule: setup_levels.induct) simp_all

lemma run_all_append:
  "run_all (cs @ ds) s =
     (case run_all cs s of (Some e, s') \<Rightarrow> (Some e, s') | (None, s') \<Rightarrow> run_all ds s')"
proof (induction cs arbitrary: s)
  case Nil
  then show ?case by simp
next
  case (Cons c cs)
  then show ?case by (cases "c s") (auto split: option.splits)
qed

lemma run_all_levels:
  assumes "\<And>c s. c \<in> set cs \<Longrightarrow>
      \<exists>new. library_log (snd (c s)) = library_log s @ new \<and>
            gpio_log (snd (c s)) = gpio_log s @ setup_levels new"
  shows "\<exists>new. library_log (snd (run_all cs s)) = library_log s @ new \<and>
               gpio_log (snd (run_all cs s)) = gpio_log s @ setup_levels new"
  using assms
proof (induction cs arbitrary: s)
  case Nil
  show ?case by (rule exI [of _ "[]"]) simp
next
  case (Cons c cs)
  obtain n1 where n1: "library_log (snd (c s)) = library_log s @ n1"
    "gpio_log (snd (c s)) = gpio_log s @ setup_levels n1"
    using Cons.prems [of c s] by auto
  obtain n2 where n2: "library_log (snd (run_all cs (snd (c s)))) = library_log (snd (c s)) @ n2"
    "gpio_log (snd (run_all cs (snd (c s)))) = gpio_log (snd (c s)) @ setup_levels n2"
    using Cons.IH [of "snd (c s)"] Cons.prems by auto
  show ?case
  proof (cases "c s")
    case (Pair r s')
    show ?thesis
    proof (cases r)
      case None
      show ?thesis
        using Pair None n1 n2 by (intro exI [of _ "n1 @ n2"]) (simp add: setup_levels_append)
    next
      case (Some e)
      show ?thesis using Pair Some n1 by (intro exI [of _ n1]) simp
    qed
  qed
qed

lemma startup_raises: "ads1298_startup_sequence env s = (Some AttributeError, s)"
  by (simp add: ads1298_startup_sequence_def set_nreset_raises)

lemma open_device_cases:
  "open_device env s =
     (case run_all (if \<not> STUB_API env then map (library_step env) hardware_setup
                    else [set_stubThread, library_step env Thread_start]) s of
        (Some e, s') \<Rightarrow> (Some e, s')
      | (None, s') \<Rightarrow> (Some AttributeError, s'\<lparr>spi_lock := True\<rparr>))"
  by (simp only: open_device_def run_all_append)
    (simp add: set_spi_lock_def startup_raises split: prod.splits option.splits)

lemma library_step_keeps:
  "spi_log (snd (library_step env c s)) = spi_log s \<and>
   config_registers (snd (library_step env c s)) = config_registers s \<and>
   nb_channels (snd (library_step env c s)) = nb_channels s \<and>
   stream_active (snd (library_step env c s)) = stream_active s \<and>
   spi_lock (snd (library_step env c s)) = spi_lock s"
  by (simp add: library_step_def split: option.splits)

lemma library_step_levels:
  "\<exists>new. library_log (snd (library_step env c s)) = library_log s @ new \<and>
         gpio_log (snd (library_step env c s)) = gpio_log s @ setup_levels new"
proof (cases "library env (library_log s) c")
  case None
  then have "library_log (snd (library_step env c s)) = library_log s @ [c] \<and>
         gpio_log (snd (library_step env c s)) = gpio_log s @ setup_levels [c]"
    by (simp add: library_step_def)
  then show ?thesis by blast
next
  case (Some e)
  then have "library_log (snd (library_step env c s)) = library_log s @ [] \<and>
         gpio_log (snd (library_step env c s)) = gpio_log s @ setup_levels []"
    by (simp add: library_step_def)
  then show ?thesis by blast
qed

lemma library_steps_return:
  "(\<forall>log c. library env log c = None) \<Longrightarrow>
     run_all (map (library_step env) cs) s
       = (None, s\<lparr>library_log := library_log s @ cs,
                   gpio_log := gpio_log s @ setup_levels cs\<rparr>)"
proof (induction cs arbitrary: s)
  case Nil
  then show ?case by simp
next
  case (Cons c cs)
  have "library_step env c s
      = (None, s\<lparr>library_log := library_log s @ [c], gpio_log := gpio_log s @ setup_levels [c]\<rparr>)"
    using Cons.prems by (simp add: library_step_def)
  then show ?case
    using Cons.IH [OF Cons.prems] setup_levels_append [of "[c]" cs] by simp
qed


lemma open_device_keeps:
  "spi_log (snd (open_device env s)) = spi_log s \<and>
   config_registers (snd (open_device env s)) = config_registers s \<and>
   nb_channels (snd (open_device env s)) = nb_channels s \<and>
   stream_active (snd (open_device env s)) = stream_active s \<and>
   (spi_lock s \<longrightarrow> spi_lock (snd (open_device env s)))"
proof -
  let ?pre = "if \<not> STUB_API env then map (library_step env) hardware_setup
              else [set_stubThread, library_step env Thread_start]"
  let ?f = "\<lambda>s. (spi_log s, config_registers s, nb_channels s, stream_active s, spi_lock s)"
  have "?f (snd (run_all ?pre s)) = ?f s"
    by (rule run_all_keeps) (auto simp add: library_step_keeps set_stubThread_def split: if_splits)
  then show ?thesis
    by (cases "run_all ?pre s") (auto simp add: open_device_cases split: option.splits)
qed

lemma open_device_levels:
  "\<exists>new. library_log (snd (open_device env s)) = library_log s @ new \<and>
         gpio_log (snd (open_device env s)) = gpio_log s @ setup_levels new"
proof -
  let ?pre = "if \<not> STUB_API env then map (library_step env) hardware_setup
              else [set_stubThread, library_step env Thread_start]"
  let ?R = "\<lambda>s s'. \<exists>new. library_log s' = library_log s @ new \<and>
              gpio_log s' = gpio_log s @ setup_levels new"
  have step: "?R s (snd (c s))" if mem: "c \<in> set ?pre" for c s
  proof (cases "c = set_stubThread")
    case True
    then show ?thesis by (intro exI [of _ "[]"]) (simp add: set_stubThread_def)
  next
    case False
    then obtain k where "c = library_step env k" using mem by (auto split: if_splits)
    then show ?thesis by (simp add: library_step_levels)
  qed
  have "?R s (snd (run_all ?pre s))"
    by (rule run_all_levels) (rule step)
  then show ?thesis
    by (cases "run_all ?pre s") (auto simp add: open_device_cases split: option.splits)
qed

lemma open_device_raises: "fst (open_device env s) \<noteq> None"
  by (simp add: open_device_cases split: prod.splits option.splits)

lemma open_device_returns:
  assumes "\<forall>log c. library env log c = None"
  shows "open_device env s =
     (Some AttributeError,
      (if \<not> STUB_API env
       then s\<lparr>library_log := library_log s @ hardware_setup,
               gpio_log := gpio_log s @ setup_levels hardware_setup\<rparr>
       else s\<lparr>stubThread := True, library_log := library_log s @ [Thread_start]\<rparr>)
      \<lparr>spi_lock := True\<rparr>)"
proof (cases "STUB_API env")
  case True
  then show ?thesis
    using assms by (simp add: open_device_cases set_stubThread_def library_step_def)
next
  case False
  then show ?thesis
    using library_steps_return [OF assms, of hardware_setup s] by (simp add: open_device_cases)
qed

lemma hardware_setup_levels:
  "setup_levels hardware_setup
     = [(START_PIN, False), (nRESET_PIN, False), (nPWRDN_PIN, False), (CE1, True)]"
  by (simp add: hardware_setup_def)

text \<open>
  C10 (as the code has it). In either mode and from any object, \<open>open_device\<close>
  raises: the exception of the library call that fails when one does, and otherwise the
  \<open>AttributeError\<close> of \<open>set_nreset\<close>, the first statement of the start-up sequence.
  No transaction goes to the bus and no register is mirrored; the levels that go to
  pins are the first levels of the \<open>GPIO.setup\<close> calls that returned, on the hardware
  \<open>START\<close>, \<open>nRESET\<close> and \<open>nPWRDN\<close> low and \<open>CE1\<close> high when all return, and
  none in stub mode: \<open>GPIO.output\<close> is not reached. \<open>start_exg_stream\<close> and
  \<open>start_test_stream\<close> always raise, never hand the read-continuous command to the
  bus and drive no pin: the exception is the one of \<open>reset_ongoing_state\<close> or of the
  mode set-up when one of these raises, and the \<open>AttributeError\<close> of \<open>set_start\<close>
  otherwise. It is the \<open>AttributeError\<close>, with \<open>stream_active\<close> left set, whenever
  the sampling rate is 500, 1000 or 2000 and either the driver runs in stub mode or the
  lock is made and no transfer raises.
\<close>

theorem pin_helpers_raise:
  "fst (open_device env s) \<noteq> None \<and>
   fst (open_device env s) =
     (case fst (run_all (if \<not> STUB_API env then map (library_step env) hardware_setup
                         else [set_stubThread, library_step env Thread_start]) s) of
        Some e \<Rightarrow> Some e | None \<Rightarrow> Some AttributeError) \<and>
   spi_log (snd (open_device env s)) = spi_log s \<and>
   config_registers (snd (open_device env s)) = config_registers s \<and>
   (\<exists>new. library_log (snd (open_device env s)) = library_log s @ new \<and>
          gpio_log (snd (open_device env s)) = gpio_log s @ setup_levels new) \<and>
   ((\<forall>log c. library env log c = None) \<longrightarrow>
      fst (open_device env s) = Some AttributeError \<and>
      gpio_log (snd (open_device env s)) =
        gpio_log s @ (if STUB_API env then []
                      else [(START_PIN, False), (nRESET_PIN, False), (nPWRDN_PIN, False),
                            (CE1, True)])) \<and>
   fst (start_exg_stream env s) =
     (case fst (run_all [reset_ongoing_state env, setup_exg_mode env] s) of
        Some e \<Rightarrow> Some e | None \<Rightarrow> Some AttributeError) \<and>
   rdatac_sent (snd (start_exg_stream env s)) = rdatac_sent s \<and>
   gpio_log (snd (start_exg_stream env s)) = gpio_log s \<and>
   fst (start_test_stream env s) =
     (case fst (run_all [reset_ongoing_state env, setup_test_mode env] s) of
        Some e \<Rightarrow> Some e | None \<Rightarrow> Some AttributeError) \<and>
   rdatac_sent (snd (start_test_stream env s)) = rdatac_sent s \<and>
   gpio_log (snd (start_test_stream env s)) = gpio_log s \<and>
   ((STUB_API env \<or> spi_lock s \<and> (\<forall>l tx. \<not> isl (xfer env l tx))) \<and>
    (sampling_rate s = 500 \<or> sampling_rate s = 1000 \<or> sampling_rate s = 2000) \<longrightarrow>
      fst (start_exg_stream env s) = Some AttributeError \<and>
      stream_active (snd (start_exg_stream env s)) \<and>
      fst (start_test_stream env s) = Some AttributeError \<and>
      stream_active (snd (start_test_stream env s)))"
proof -
  have oe: "fst (open_device env s) =
     (case fst (run_all (if \<not> STUB_API env then map (library_step env) hardware_setup
                         else [set_stubThread, library_step env Thread_start]) s) of
        Some e \<Rightarrow> Some e | None \<Rightarrow> Some AttributeError)"
    by (simp add: open_device_cases split: prod.splits option.splits)
  have od: "fst (open_device env s) \<noteq> None \<and>
      spi_log (snd (open_device env s)) = spi_log s \<and>
      config_registers (snd (open_device env s)) = config_registers s"
    by (simp add: open_device_raises open_device_keeps)
  have lv: "\<exists>new. library_log (snd (open_device env s)) = library_log s @ new \<and>
          gpio_log (snd (open_device env s)) = gpio_log s @ setup_levels new"
    by (rule open_device_levels)
  have ret: "fst (open_device env s) = Some AttributeError \<and>
      gpio_log (snd (open_device env s)) =
        gpio_log s @ (if STUB_API env then []
                      else [(START_PIN, False), (nRESET_PIN, False), (nPWRDN_PIN, False),
                            (CE1, True)])"
    if "\<forall>log c. library env log c = None"
    by (simp add: open_device_returns [OF that] hardware_setup_levels)
  have e1: "fst (start_exg_stream env s) =
     (case fst (run_all [reset_ongoing_state env, setup_exg_mode env] s) of
        Some e \<Rightarrow> Some e | None \<Rightarrow> Some AttributeError)"
    unfolding start_exg_stream_def by (rule start_error)
  have e2: "fst (start_test_stream env s) =
     (case fst (run_all [reset_ongoing_state env, setup_test_mode env] s) of
        Some e \<Rightarrow> Some e | None \<Rightarrow> Some AttributeError)"
    unfolding start_test_stream_def by (rule start_error)
  have k1: "gpio_log (snd (start_exg_stream env s)) = gpio_log s \<and>
      rdatac_sent (snd (start_exg_stream env s)) = rdatac_sent s"
    unfolding start_exg_stream_def
    by (rule start_keeps) (simp_all add: reset_ongoing_state_keeps setup_exg_mode_keeps)
  have k2: "gpio_log (snd (start_test_stream env s)) = gpio_log s \<and>
      rdatac_sent (snd (start_test_stream env s)) = rdatac_sent s"
    unfolding start_test_stream_def
    by (rule start_keeps) (simp_all add: reset_ongoing_state_keeps setup_test_mode_keeps)
  have ok: "fst (start_exg_stream env s) = Some AttributeError \<and>
      stream_active (snd (start_exg_stream env s)) \<and>
      fst (start_test_stream env s) = Some AttributeError \<and>
      stream_active (snd (start_test_stream env s))"
    if "healthy env s"
  proof -
    have c1: "fst (run_all [reset_ongoing_state env, setup_exg_mode env] s) = None"
      using that by (rule configured_ok) (rule setup_exg_mode_ok)
    have c2: "fst (run_all [reset_ongoing_state env, setup_test_mode env] s) = None"
      using that by (rule configured_ok) (rule setup_test_mode_ok)
    have f1: "stream_active (snd (start_exg_stream env s))"
      unfolding start_exg_stream_def using c1 by (rule start_sets_flag)
    have f2: "stream_active (snd (start_test_stream env s))"
      unfolding start_test_stream_def using c2 by (rule start_sets_flag)
    show ?thesis using f1 f2 by (simp del: run_all.simps add: e1 e2 c1 c2)
  qed
  show ?thesis using oe od lv ret e1 e2 k1 k2 ok unfolding healthy_def by blast
qed

theorem pin_helpers_raise_witness:
  "fst (open_device (bench True []) initial) = Some AttributeError \<and>
   gpio_log (snd (open_device (bench True []) initial)) = [] \<and>
   fst (open_device (bench False test_frame) initial) = Some AttributeError \<and>
   gpio_log (snd (open_device (bench False test_frame) initial))
     = [(START_PIN, False), (nRESET_PIN, False), (nPWRDN_PIN, False), (CE1, True)] \<and>
   fst (start_exg_stream (bench True []) initial) = Some AttributeError \<and>
   stream_active (snd (start_exg_stream (bench True []) initial)) \<and>
   fst (start_test_stream (bench False test_frame) (initial\<lparr>spi_lock := True\<rparr>))
     = Some AttributeError \<and>
   rdatac_sent (snd (start_test_stream (bench False test_frame) (initial\<lparr>spi_lock := True\<rparr>))) = []"
proof -
  let ?stub = "bench True []" and ?hw = "bench False test_frame"
  let ?i = "initial :: client ads"
  let ?s = "initial\<lparr>spi_lock := True\<rparr> :: client ads"
  have l1: "\<forall>log c. library ?stub log c = None" by (simp add: bench_def)
  have l2: "\<forall>log c. library ?hw log c = None" by (simp add: bench_def)
  have m1: "STUB_API ?stub" and m2: "\<not> STUB_API ?hw" by (simp_all add: bench_def)
  have g: "gpio_log ?i = []" by (simp add: initial_def)
  have h1: "(STUB_API ?stub \<or> spi_lock ?i \<and> (\<forall>l tx. \<not> isl (xfer ?stub l tx))) \<and>
      (sampling_rate ?i = 500 \<or> sampling_rate ?i = 1000 \<or> sampling_rate ?i = 2000)"
    by (simp add: bench_def initial_def)
  have h2: "(STUB_API ?hw \<or> spi_lock ?s \<and> (\<forall>l tx. \<not> isl (xfer ?hw l tx))) \<and>
      (sampling_rate ?s = 500 \<or> sampling_rate ?s = 1000 \<or> sampling_rate ?s = 2000)"
    by (simp add: bench_def initial_def)
  have r: "rdatac_sent ?s = []" by (simp add: rdatac_sent_def initial_def)
  note t1 = pin_helpers_raise [of ?stub ?i]
  note t2 = pin_helpers_raise [of ?hw ?s]
  note t3 = pin_helpers_raise [of ?hw ?i]
  have "fst (open_device ?stub ?i) = Some AttributeError \<and>
      gpio_log (snd (open_device ?stub ?i)) =
        gpio_log ?i @ (if STUB_API ?stub then []
                      else [(START_PIN, False), (nRESET_PIN, False), (nPWRDN_PIN, False),
                            (CE1, True)])"
    using t1 l1 by blast
  then have a: "fst (open_device ?stub ?i) = Some AttributeError \<and>
      gpio_log (snd (open_device ?stub ?i)) = []"
    by (simp add: m1 g)
  have "fst (open_device ?hw ?i) = Some AttributeError \<and>
      gpio_log (snd (open_device ?hw ?i)) =
        gpio_log ?i @ (if STUB_API ?hw then []
                      else [(START_PIN, False), (nRESET_PIN, False), (nPWRDN_PIN, False),
                            (CE1, True)])"
    using t3 l2 by blast
  then have a': "fst (open_device ?hw ?i) = Some AttributeError \<and>
      gpio_log (snd (open_device ?hw ?i))
        = [(START_PIN, False), (nRESET_PIN, False), (nPWRDN_PIN, False), (CE1, True)]"
    by (simp add: m2 g)
  have b: "fst (start_exg_stream ?stub ?i) = Some AttributeError \<and>
      stream_active (snd (start_exg_stream ?stub ?i))"
    using t1 h1 by blast
  have c: "fst (start_test_stream ?hw ?s) = Some AttributeError"
    using t2 h2 by blast
  have "rdatac_sent (snd (start_test_stream ?hw ?s)) = rdatac_sent ?s"
    using t2 by blast
  then have d: "rdatac_sent (snd (start_test_stream ?hw ?s)) = []" by (simp only: r)
  show ?thesis using a a' b c d by simp
qed

text \<open>
  A sampling rate of 250, accepted by \<open>configure\<close>: \<open>start_exg_stream\<close> ends in the
  \<open>ValueError\<close> of \<open>set_sampling_rate\<close>, before \<open>set_start\<close> is reached.
\<close>

theorem start_exg_stream_invalid_rate:
  "fst (start_exg_stream (bench True []) (initial\<lparr>sampling_rate := 250\<rparr>)) = Some ValueError"
  by (simp add: start_exg_stream_def reset_ongoing_state_def spi_transmit_byte_def
      spi_write_single_reg_def set_sampling_rate_def bench_def initial_def Let_def)

subsection \<open>Objects the operations reach\<close>

lemma transmit_steady:
  "nb_channels (snd (spi_transmit_byte env byte s)) = nb_channels s \<and>
   spi_lock (snd (spi_transmit_byte env byte s)) = spi_lock s \<and>
   stream_active (snd (spi_transmit_byte env byte s)) = stream_active s"
  by (simp add: spi_transmit_byte_def locked_xfer_def discard_def split: sum.splits)

lemma write_single_steady:
  "nb_channels (snd (spi_write_single_reg env reg byte s)) = nb_channels s \<and>
   spi_lock (snd (spi_write_single_reg env reg byte s)) = spi_lock s \<and>
   stream_active (snd (spi_write_single_reg env reg byte s)) = stream_active s"
  by (simp add: spi_write_single_reg_def locked_xfer_def discard_def Let_def split: sum.splits)

lemma write_multiple_steady:
  "nb_channels (snd (spi_write_multiple_reg env base vals s)) = nb_channels s \<and>
   spi_lock (snd (spi_write_multiple_reg env base vals s)) = spi_lock s \<and>
   stream_active (snd (spi_write_multiple_reg env base vals s)) = stream_active s"
  by (simp add: spi_write_multiple_reg_def locked_xfer_def discard_def Let_def split: sum.splits)

lemma set_sampling_rate_steady:
  "nb_channels (snd (set_sampling_rate env s)) = nb_channels s \<and>
   spi_lock (snd (set_sampling_rate env s)) = spi_lock s \<and>
   stream_active (snd (set_sampling_rate env s)) = stream_active s"
  by (simp add: set_sampling_rate_def write_single_steady)

lemma reset_ongoing_state_steady:
  "nb_channels (snd (reset_ongoing_state env s)) = nb_channels s \<and>
   spi_lock (snd (reset_ongoing_state env s)) = spi_lock s \<and>
   stream_active (snd (reset_ongoing_state env s)) = stream_active s"
proof -
  have "(\<lambda>s. (nb_channels s, spi_lock s, stream_active s)) (snd (reset_ongoing_state env s))
      = (\<lambda>s. (nb_channels s, spi_lock s, stream_active s)) s"
    unfolding reset_ongoing_state_def
    by (rule run_all_keeps)
      (auto simp add: transmit_steady write_single_steady set_sampling_rate_steady
        write_multiple_steady configure_all_channels_def)
  then show ?thesis by simp
qed

lemma configure_dc_leads_off_steady:
  "nb_channels (snd (configure_dc_leads_off env enable s)) = nb_channels s \<and>
   spi_lock (snd (configure_dc_leads_off env enable s)) = spi_lock s \<and>
   stream_active (snd (configure_dc_leads_off env enable s)) = stream_active s"
proof -
  have "(\<lambda>s. (nb_channels s, spi_lock s, stream_active s))
          (snd (configure_dc_leads_off env enable s))
      = (\<lambda>s. (nb_channels s, spi_lock s, stream_active s)) s"
    unfolding configure_dc_leads_off_def
    by (cases enable; simp only: if_True if_False; rule run_all_keeps)
      (auto simp add: write_single_steady)
  then show ?thesis by simp
qed

lemma setup_bias_drive_steady:
  "nb_channels (snd (setup_bias_drive env s)) = nb_channels s \<and>
   spi_lock (snd (setup_bias_drive env s)) = spi_lock s \<and>
   stream_active (snd (setup_bias_drive env s)) = stream_active s"
proof (cases "bias_enabled s")
  case False
  then show ?thesis by (simp add: setup_bias_drive_def)
next
  case True
  have "(\<lambda>s. (nb_channels s, spi_lock s, stream_active s)) (snd (run_all
            [spi_write_single_reg env REG_BIAS_SENSP (2 ^ NUM_CHANNELS - 1),
             spi_write_single_reg env REG_BIAS_SENSN (2 ^ NUM_CHANNELS - 1),
             spi_write_single_reg env REG_CONFIG3 0xEC] s))
      = (\<lambda>s. (nb_channels s, spi_lock s, stream_active s)) s"
    by (rule run_all_keeps) (auto simp add: write_single_steady)
  then show ?thesis using True by (simp add: setup_bias_drive_def Let_def)
qed

lemma setup_exg_mode_steady:
  "nb_channels (snd (setup_exg_mode env s)) = nb_channels s \<and>
   spi_lock (snd (setup_exg_mode env s)) = spi_lock s \<and>
   stream_active (snd (setup_exg_mode env s)) = stream_active s"
proof -
  have "(\<lambda>s. (nb_channels s, spi_lock s, stream_active s)) (snd (setup_exg_mode env s))
      = (\<lambda>s. (nb_channels s, spi_lock s, stream_active s)) s"
    unfolding setup_exg_mode_def
    by (rule run_all_keeps)
      (auto simp add: write_single_steady write_multiple_steady configure_all_channels_def
        configure_dc_leads_off_steady setup_bias_drive_steady)
  then show ?thesis by simp
qed

lemma setup_test_mode_steady:
  "nb_channels (snd (setup_test_mode env s)) = nb_channels s \<and>
   spi_lock (snd (setup_test_mode env s)) = spi_lock s \<and>
   stream_active (snd (setup_test_mode env s)) = stream_active s"
proof -
  have "(\<lambda>s. (nb_channels s, spi_lock s, stream_active s)) (snd (setup_test_mode env s))
      = (\<lambda>s. (nb_channels s, spi_lock s, stream_active s)) s"
    unfolding setup_test_mode_def
    by (rule run_all_keeps)
      (auto simp add: transmit_steady write_single_steady write_multiple_steady
        configure_all_channels_def configure_dc_leads_off_steady)
  then show ?thesis by simp
qed

lemma reset_needs_lock:
  "\<not> STUB_API env \<Longrightarrow> \<not> spi_lock s \<Longrightarrow> reset_ongoing_state env s = (Some TypeError, s)"
  by (simp add: reset_ongoing_state_def spi_transmit_byte_def locked_xfer_def discard_def)

lemma start_steady:
  assumes "\<And>s. nb_channels (snd (mode s)) = nb_channels s \<and>
      spi_lock (snd (mode s)) = spi_lock s \<and> stream_active (snd (mode s)) = stream_active s"
  shows "nb_channels (snd (run_all [reset_ongoing_state env, mode, set_stream_active True,
            set_start env True, spi_transmit_byte env RDATAC] s)) = nb_channels s \<and>
         spi_lock (snd (run_all [reset_ongoing_state env, mode, set_stream_active True,
            set_start env True, spi_transmit_byte env RDATAC] s)) = spi_lock s \<and>
         (stream_active (snd (run_all [reset_ongoing_state env, mode, set_stream_active True,
            set_start env True, spi_transmit_byte env RDATAC] s))
            \<longrightarrow> stream_active s \<or> STUB_API env \<or> spi_lock s)"
proof -
  let ?r = "run_all [reset_ongoing_state env, mode, set_stream_active True,
            set_start env True, spi_transmit_byte env RDATAC] s"
  have "(\<lambda>s. (nb_channels s, spi_lock s))
          (snd (run_all [reset_ongoing_state env, mode, set_stream_active True,
            set_start env True] s))
      = (\<lambda>s. (nb_channels s, spi_lock s)) s"
    by (rule run_all_keeps)
      (auto simp add: assms reset_ongoing_state_steady set_start_raises set_stream_active_def)
  then have keep: "nb_channels (snd ?r) = nb_channels s \<and> spi_lock (snd ?r) = spi_lock s"
    by (simp del: run_all.simps add: start_stops_at_set_start)
  have flag: "stream_active (snd ?r) = stream_active s"
    if "\<not> STUB_API env" and "\<not> spi_lock s"
    using reset_needs_lock [OF that] by simp
  show ?thesis using keep flag by blast
qed

lemma stop_stream_steady:
  "nb_channels (snd (stop_stream env s)) = nb_channels s \<and>
   spi_lock (snd (stop_stream env s)) = spi_lock s \<and>
   (stream_active (snd (stop_stream env s)) \<longrightarrow> stream_active s)"
  by (auto simp add: stop_stream_def set_APIAlive_def spi_transmit_byte_def locked_xfer_def
      discard_def set_stream_active_def split: sum.splits)

lemma close_device_steady:
  "nb_channels (snd (close_device env s)) = nb_channels s \<and>
   spi_lock (snd (close_device env s)) = spi_lock s \<and>
   stream_active (snd (close_device env s)) = stream_active s"
proof -
  have "(\<lambda>s. (nb_channels s, spi_lock s, stream_active s)) (snd (close_device env s))
      = (\<lambda>s. (nb_channels s, spi_lock s, stream_active s)) s"
    unfolding close_device_def
    by (rule run_all_keeps)
      (auto simp add: set_APIAlive_def join_stubThread_def library_step_keeps split: if_splits)
  then show ?thesis by simp
qed

lemma broadcast_steady:
  "nb_channels (snd (broadcast env hs raw s)) = nb_channels s \<and>
   spi_lock (snd (broadcast env hs raw s)) = spi_lock s \<and>
   stream_active (snd (broadcast env hs raw s)) = stream_active s"
  by (induction hs arbitrary: s) (simp_all add: Let_def split: option.splits)

lemma handle_event_steady:
  "nb_channels (handle_event env ev s) = nb_channels s \<and>
   spi_lock (handle_event env ev s) = spi_lock s \<and>
   stream_active (handle_event env ev s) = stream_active s"
  by (cases ev)
    (auto simp add: drdy_callback_def spi_read_multiple_bytes_def locked_xfer_def
      broadcast_steady configure_def register_client_def split: sum.splits option.splits)

lemma perform_steady:
  assumes "nb_channels s = 8 \<and> (stream_active s \<longrightarrow> STUB_API env \<or> spi_lock s)"
  shows "nb_channels (perform env op s) = 8 \<and>
         (stream_active (perform env op s) \<longrightarrow> STUB_API env \<or> spi_lock (perform env op s))"
proof (cases op)
  case Open_device
  then show ?thesis using assms open_device_keeps [of env s] by auto
next
  case Close_device
  then show ?thesis using assms close_device_steady [of env s] by auto
next
  case Start_exg_stream
  then show ?thesis
    using assms start_steady [of "setup_exg_mode env" env s, OF setup_exg_mode_steady]
    by (auto simp del: run_all.simps simp add: start_exg_stream_def)
next
  case Start_test_stream
  then show ?thesis
    using assms start_steady [of "setup_test_mode env" env s, OF setup_test_mode_steady]
    by (auto simp del: run_all.simps simp add: start_test_stream_def)
next
  case Stop_stream
  then show ?thesis using assms stop_stream_steady [of env s] by auto
next
  case (Event ev)
  then show ?thesis using assms handle_event_steady [of env ev s] by auto
qed

lemma reached_steady:
  "nb_channels s = 8 \<and> (stream_active s \<longrightarrow> STUB_API env \<or> spi_lock s) \<Longrightarrow>
     nb_channels (fold (perform env) ops s) = 8 \<and>
     (stream_active (fold (perform env) ops s)
        \<longrightarrow> STUB_API env \<or> spi_lock (fold (perform env) ops s))"
proof (induction ops arbitrary: s)
  case Nil
  then show ?case by simp
next
  case (Cons op ops)
  have "nb_channels (perform env op s) = 8 \<and>
      (stream_active (perform env op s) \<longrightarrow> STUB_API env \<or> spi_lock (perform env op s))"
    using Cons.prems by (rule perform_steady)
  then show ?case using Cons.IH [of "perform env op s"] by simp
qed

text \<open>
  C6. On every object that the operations and events reach from the initial one, on the
  hardware and while the stream is active, \<open>nb_channels\<close> is 8 and \<open>drdy_callback\<close>
  hands the bus one transaction of \<open>3 + 3 * nb_channels\<close> zero bytes, the bytes of one
  frame.
\<close>

theorem drdy_callback_reads_frame:
  assumes "\<not> STUB_API env" and "stream_active (fold (perform env) ops initial)"
  shows "nb_channels (fold (perform env) ops initial) = 8 \<and>
     spi_log (snd (drdy_callback env (fold (perform env) ops initial)))
       = spi_log (fold (perform env) ops initial)
           @ [replicate (3 + 3 * nat (nb_channels (fold (perform env) ops initial))) 0]"
proof -
  let ?s = "fold (perform env) ops initial"
  have "nb_channels (initial :: 'a ads) = 8 \<and>
      (stream_active (initial :: 'a ads) \<longrightarrow> STUB_API env \<or> spi_lock (initial :: 'a ads))"
    by (simp add: initial_def)
  then have inv: "nb_channels ?s = 8 \<and> (stream_active ?s \<longrightarrow> STUB_API env \<or> spi_lock ?s)"
    by (rule reached_steady)
  then have lock: "spi_lock ?s" using assms by simp
  have "spi_log (snd (drdy_callback env ?s)) = spi_log ?s @ [replicate (3 + 3 * NUM_CHANNELS) 0]"
    using assms(1) lock assms(2) by (rule drdy_callback_reads)
  then show ?thesis using inv by (simp add: NUM_CHANNELS_def)
qed

theorem drdy_callback_reads_frame_witness:
  "nb_channels (fold (perform (bench False test_frame)) [Open_device, Start_exg_stream]
       (initial :: client ads)) = 8 \<and>
   spi_log (snd (drdy_callback (bench False test_frame)
       (fold (perform (bench False test_frame)) [Open_device, Start_exg_stream] initial)))
     = spi_log (fold (perform (bench False test_frame)) [Open_device, Start_exg_stream] initial)
         @ [replicate 27 0]"
proof -
  let ?e = "bench False test_frame"
  let ?o = "snd (open_device ?e (initial :: client ads))"
  have hw: "\<not> STUB_API ?e" by (simp add: bench_def)
  have lib: "\<forall>log c. library ?e log c = None" by (simp add: bench_def)
  have "spi_lock ?o \<and> sampling_rate ?o = 500"
    using hw by (simp add: open_device_returns [OF lib] initial_def)
  then have "healthy ?e ?o" by (simp add: healthy_def bench_def)
  then have "fst (run_all [reset_ongoing_state ?e, setup_exg_mode ?e] ?o) = None"
    by (rule configured_ok) (rule setup_exg_mode_ok)
  then have "stream_active (snd (start_exg_stream ?e ?o))"
    unfolding start_exg_stream_def by (rule start_sets_flag)
  then have act: "stream_active (fold (perform ?e) [Open_device, Start_exg_stream] initial)"
    by simp
  show ?thesis
    using drdy_callback_reads_frame [OF hw act] by simp
qed

end
